theory Spec2Isabelle
  imports Complex_Main "HOL-Library.Word"
begin

section \<open>Python values\<close>

text \<open>
  The daemon \<^verbatim>\<open>pm_daemon.py\<close> is dynamically typed: the configuration and the events are
  whatever \<^verbatim>\<open>json.load\<close> returns. A JSON value is modelled as the datatype \<open>json\<close>, an
  exception as a value of \<open>pyexc\<close>, and a function that can raise returns \<open>pyexc + 'a\<close>
  (\<open>Inl\<close> the exception). Text is modelled by \<open>string\<close>: characters are the code points
  below 256. A float is the dyadic number \<open>m * 2 ^ e\<close>, an infinity or a NaN; only its
  truth value and its conversion to an integer are used.
  A dict is an association list read with \<open>map_of\<close>: a key stands once in a dict, and a
  repeated key of the list is hidden behind its first occurrence.
\<close>

datatype pyexc = TypeError | ValueError | AttributeError | KeyError | OverflowError

datatype pyfloat = FFinite int int | FInf | FNaN

datatype json =
    JNull
  | JBool bool
  | JInt int
  | JFloat pyfloat
  | JStr string
  | JList "json list"
  | JObj "(string \<times> json) list"

type_synonym pydict = "(string \<times> json) list"

definition bnd :: "pyexc + 'a \<Rightarrow> ('a \<Rightarrow> pyexc + 'b) \<Rightarrow> pyexc + 'b" where
  "bnd m f = (case m of Inl e \<Rightarrow> Inl e | Inr x \<Rightarrow> f x)"

text \<open>Truth value of an object (\<^verbatim>\<open>if x\<close>, \<^verbatim>\<open>x or y\<close>).\<close>

fun truthy :: "json \<Rightarrow> bool" where
  "truthy JNull = False"
| "truthy (JBool b) = b"
| "truthy (JInt i) = (i \<noteq> 0)"
| "truthy (JFloat (FFinite m e)) = (m \<noteq> 0)"
| "truthy (JFloat FInf) = True"
| "truthy (JFloat FNaN) = True"
| "truthy (JStr s) = (s \<noteq> [])"
| "truthy (JList xs) = (xs \<noteq> [])"
| "truthy (JObj kvs) = (kvs \<noteq> [])"

definition py_or :: "json \<Rightarrow> json \<Rightarrow> json" where
  "py_or a b = (if truthy a then a else b)"

text \<open>\<^verbatim>\<open>d.get(k, dflt)\<close>: only a dict has the method.\<close>

definition dict_get :: "pydict \<Rightarrow> string \<Rightarrow> json \<Rightarrow> json" where
  "dict_get kvs k dflt = (case map_of kvs k of Some v \<Rightarrow> v | None \<Rightarrow> dflt)"

definition py_get :: "json \<Rightarrow> string \<Rightarrow> json \<Rightarrow> pyexc + json" where
  "py_get d k dflt =
     (case d of
        JObj kvs \<Rightarrow> Inr (dict_get kvs k dflt)
      | _ \<Rightarrow> Inl AttributeError)"

text \<open>\<^verbatim>\<open>sub in s\<close> on text: \<open>sub\<close> is a contiguous part of \<open>s\<close>.\<close>

fun is_substr :: "string \<Rightarrow> string \<Rightarrow> bool" where
  "is_substr sub [] = (sub = [])"
| "is_substr sub (c # cs) = (take (length sub) (c # cs) = sub \<or> is_substr sub cs)"

text \<open>\<^verbatim>\<open>k in x\<close> for a text key \<open>k\<close>: a key of a dict, an element of a list, a part of
  a text; every other JSON value is not iterable.\<close>

definition py_contains :: "string \<Rightarrow> json \<Rightarrow> pyexc + bool" where
  "py_contains k x =
     (case x of
        JObj kvs \<Rightarrow> Inr (k \<in> fst ` set kvs)
      | JList xs \<Rightarrow> Inr (JStr k \<in> set xs)
      | JStr s \<Rightarrow> Inr (is_substr k s)
      | _ \<Rightarrow> Inl TypeError)"

text \<open>\<^verbatim>\<open>x[k]\<close> for a text key \<open>k\<close>.\<close>

definition py_getitem :: "json \<Rightarrow> string \<Rightarrow> pyexc + json" where
  "py_getitem x k =
     (case x of
        JObj kvs \<Rightarrow> (case map_of kvs k of Some v \<Rightarrow> Inr v | None \<Rightarrow> Inl KeyError)
      | _ \<Rightarrow> Inl TypeError)"

definition py_len :: "json \<Rightarrow> pyexc + nat" where
  "py_len x =
     (case x of
        JList xs \<Rightarrow> Inr (length xs)
      | JStr s \<Rightarrow> Inr (length s)
      | JObj kvs \<Rightarrow> Inr (length (remdups (map fst kvs)))
      | _ \<Rightarrow> Inl TypeError)"

text \<open>\<^verbatim>\<open>x[i]\<close> for an index \<open>0 \<le> i < len(x)\<close>: an element of a list, a one-character
  text of a text; the keys of a JSON dict are texts, so no integer is one.\<close>

definition py_index :: "json \<Rightarrow> nat \<Rightarrow> pyexc + json" where
  "py_index x i =
     (case x of
        JList xs \<Rightarrow> Inr (xs ! i)
      | JStr s \<Rightarrow> Inr (JStr [s ! i])
      | JObj kvs \<Rightarrow> Inl KeyError
      | _ \<Rightarrow> Inl TypeError)"

subsection \<open>Text\<close>

text \<open>The characters \<^verbatim>\<open>str.strip\<close> removes, and those \<^verbatim>\<open>int\<close> skips around a number.\<close>

definition uni_space :: "char \<Rightarrow> bool" where
  "uni_space c = ((of_char c :: nat) \<in> {9, 10, 11, 12, 13, 28, 29, 30, 31, 32, 133, 160})"

definition int_space :: "char \<Rightarrow> bool" where
  "int_space c = ((of_char c :: nat) \<in> {9, 10, 11, 12, 13, 32, 133, 160})"

definition py_strip :: "string \<Rightarrow> string" where
  "py_strip s = rev (dropWhile uni_space (rev (dropWhile uni_space s)))"

text \<open>\<^verbatim>\<open>s.split(sep, 1)\<close> of a text that holds \<open>sep\<close>: the parts around the first one.\<close>

definition split1 :: "char \<Rightarrow> string \<Rightarrow> string \<times> string" where
  "split1 sep s = (takeWhile (\<lambda>c. c \<noteq> sep) s, tl (dropWhile (\<lambda>c. c \<noteq> sep) s))"

definition lower_char :: "char \<Rightarrow> char" where
  "lower_char c =
     (let n = (of_char c :: nat)
      in if (65 \<le> n \<and> n \<le> 90) \<or> (192 \<le> n \<and> n \<le> 222 \<and> n \<noteq> 215)
         then char_of (n + 32) else c)"

definition py_lower :: "json \<Rightarrow> pyexc + string" where
  "py_lower x = (case x of JStr s \<Rightarrow> Inr (map lower_char s) | _ \<Rightarrow> Inl AttributeError)"

text \<open>
  \<^verbatim>\<open>int(s, base)\<close> on a text, as \<^verbatim>\<open>PyLong_FromString\<close> reads it: blanks, a sign, for base
  16 an optional \<^verbatim>\<open>0x\<close>, then digits with single underscores between them, then blanks.
\<close>

definition digit_val :: "char \<Rightarrow> nat option" where
  "digit_val c =
     (let n = (of_char c :: nat)
      in if 48 \<le> n \<and> n \<le> 57 then Some (n - 48)
         else if 97 \<le> n \<and> n \<le> 122 then Some (n - 87)
         else if 65 \<le> n \<and> n \<le> 90 then Some (n - 55)
         else None)"

fun scan_digits :: "nat \<Rightarrow> char \<Rightarrow> int \<Rightarrow> string \<Rightarrow> (int \<times> char \<times> string) option" where
  "scan_digits base prev acc [] = Some (acc, prev, [])"
| "scan_digits base prev acc (c # cs) =
     (if c = CHR ''_'' then
        (if prev = CHR ''_'' then None else scan_digits base c acc cs)
      else
        (case digit_val c of
           Some d \<Rightarrow>
             if d < base then scan_digits base c (acc * int base + int d) cs
             else Some (acc, prev, c # cs)
         | None \<Rightarrow> Some (acc, prev, c # cs)))"

fun skip_sign :: "string \<Rightarrow> bool \<times> string" where
  "skip_sign [] = (False, [])"
| "skip_sign (c # cs) =
     (if c = CHR ''+'' then (False, cs)
      else if c = CHR ''-'' then (True, cs)
      else (False, c # cs))"

fun skip_prefix :: "nat \<Rightarrow> string \<Rightarrow> string" where
  "skip_prefix base (c0 # c1 # cs) =
     (if c0 = CHR ''0'' \<and> base = 16 \<and> (c1 = CHR ''x'' \<or> c1 = CHR ''X'')
      then (case cs of c2 # cs' \<Rightarrow> if c2 = CHR ''_'' then cs' else cs | [] \<Rightarrow> cs)
      else c0 # c1 # cs)"
| "skip_prefix base s = s"

text \<open>
  The interpreter refuses a text of more than \<open>max_str_digits\<close> digits (underscores
  not counted, leading zeros counted) in a base that is not a power of two:
  \<^verbatim>\<open>sys.int_info.default_max_str_digits\<close>. \<^verbatim>\<open>json.load\<close> refuses a longer integer
  literal the same way, and the file then counts as not loaded.
\<close>

definition max_str_digits :: int where
  "max_str_digits = 4300"

definition int_of_str :: "nat \<Rightarrow> string \<Rightarrow> pyexc + int" where
  "int_of_str base s =
     (let (neg, s2) = skip_sign (dropWhile int_space s);
          s3 = skip_prefix base s2
      in if take 1 s3 = ''_'' then Inl ValueError
         else
           (case scan_digits base (CHR 0x00) 0 s3 of
              None \<Rightarrow> Inl ValueError
            | Some (v, prev, rest) \<Rightarrow>
                if prev = CHR ''_'' then Inl ValueError
                else if length rest = length s3 then Inl ValueError
                else if base = 10
                     \<and> int (length (filter (\<lambda>c. c \<noteq> CHR ''_'')
                                    (take (length s3 - length rest) s3))) > max_str_digits
                then Inl ValueError
                else if dropWhile int_space rest \<noteq> [] then Inl ValueError
                else Inr (if neg then - v else v)))"

text \<open>\<^verbatim>\<open>int(x)\<close>: a float is cut towards zero, a text is read in base 10.\<close>

fun py_int :: "json \<Rightarrow> pyexc + int" where
  "py_int (JInt i) = Inr i"
| "py_int (JBool b) = Inr (if b then 1 else 0)"
| "py_int (JFloat (FFinite m e)) =
     Inr (if 0 \<le> e then m * 2 ^ nat e else sgn m * (\<bar>m\<bar> div 2 ^ nat (- e)))"
| "py_int (JFloat FInf) = Inl OverflowError"
| "py_int (JFloat FNaN) = Inl ValueError"
| "py_int (JStr s) = int_of_str 10 s"
| "py_int JNull = Inl TypeError"
| "py_int (JList xs) = Inl TypeError"
| "py_int (JObj kvs) = Inl TypeError"

text \<open>\<^verbatim>\<open>os.path.basename\<close> and \<^verbatim>\<open>os.path.splitext\<close> of \<^verbatim>\<open>posixpath\<close>.\<close>

definition rfind :: "string \<Rightarrow> char \<Rightarrow> int" where
  "rfind p c =
     (if c \<in> set p then int (length p) - 1 - int (length (takeWhile (\<lambda>x. x \<noteq> c) (rev p)))
      else - 1)"

definition basename :: "string \<Rightarrow> string" where
  "basename p = drop (nat (rfind p (CHR ''/'') + 1)) p"

definition splitext :: "string \<Rightarrow> string \<times> string" where
  "splitext p =
     (let sepIndex = rfind p (CHR ''/'');
          dotIndex = rfind p (CHR ''.'')
      in if dotIndex > sepIndex
            \<and> list_ex (\<lambda>k. p ! k \<noteq> CHR ''.'') [nat (sepIndex + 1) ..< nat dotIndex]
         then (take (nat dotIndex) p, drop (nat dotIndex) p)
         else (p, []))"

section \<open>Frame codec\<close>

type_synonym color = "int \<times> int \<times> int \<times> int"
type_synonym byte = "8 word"
type_synonym sink = "byte list list"

definition NUM_LEDS :: nat where
  "NUM_LEDS = 7"

definition ORDER :: "nat list" where
  "ORDER = [0 ..< NUM_LEDS]"

definition BRIGHT_LIMIT :: int where
  "BRIGHT_LIMIT = 170"

text \<open>\<^verbatim>\<open>b"multiverse:data"\<close>\<close>

definition HEADER :: "byte list" where
  "HEADER = [109, 117, 108, 116, 105, 118, 101, 114, 115, 101, 58, 100, 97, 116, 97]"

text \<open>\<^verbatim>\<open>_clamp(x, lo=0, hi=255)\<close>\<close>

definition clamp :: "int \<Rightarrow> int \<Rightarrow> int \<Rightarrow> int" where
  "clamp x lo hi = (if x < lo then lo else if x > hi then hi else x)"

text \<open>\<^verbatim>\<open>bytes(ints)\<close> raises on a value outside \<^verbatim>\<open>range(256)\<close>.\<close>

definition py_bytes :: "int list \<Rightarrow> pyexc + byte list" where
  "py_bytes xs =
     (if list_all (\<lambda>x. 0 \<le> x \<and> x < 256) xs then Inr (map word_of_int xs) else Inl ValueError)"

fun pack_payload :: "byte list \<Rightarrow> color list \<Rightarrow> pyexc + byte list" where
  "pack_payload payload [] = Inr payload"
| "pack_payload payload ((b, g, r, br) # cols) =
     bnd (py_bytes [clamp b 0 255, clamp g 0 255, clamp r 0 255, clamp br 0 255])
       (\<lambda>bs. pack_payload (payload @ bs) cols)"

definition pack_colors :: "color list \<Rightarrow> pyexc + byte list" where
  "pack_colors cols = bnd (pack_payload [] cols) (\<lambda>payload. Inr (HEADER @ payload))"

text \<open>
  The serial port is the list of the byte strings written to it, oldest first. A function
  that writes returns the port, or the exception with the port as it was when raised.
  Failures of the device itself are outside the model.
\<close>

definition send_colors :: "sink \<Rightarrow> color list \<Rightarrow> pyexc \<times> sink + sink" where
  "send_colors ser cols =
     (let mapped = map (\<lambda>src. if src < length cols then cols ! src else (0, 0, 0, 0)) ORDER
      in case pack_colors mapped of
           Inl e \<Rightarrow> Inl (e, ser)
         | Inr frame \<Rightarrow> Inr (ser @ [frame]))"

definition all_off :: "color list" where
  "all_off = replicate NUM_LEDS (0, 0, 0, 0)"

definition solid :: "int \<Rightarrow> int \<Rightarrow> int \<Rightarrow> int \<Rightarrow> color list" where
  "solid b g r br = replicate NUM_LEDS (b, g, r, clamp (min br BRIGHT_LIMIT) 0 255)"

section \<open>Configuration and its resolvers\<close>

text \<open>
  The global \<^verbatim>\<open>_cfg\<close> is a dict at every moment: it starts as \<^verbatim>\<open>{}\<close>, and
  \<^verbatim>\<open>load_config\<close> keeps what \<^verbatim>\<open>json.load\<close> returned only if \<^verbatim>\<open>_cfg.keys()\<close> did not
  raise, which it does for every value but a dict. The argument is what opening and
  parsing the file gave: \<open>None\<close> when either raised. Log output is not modelled.
\<close>

definition load_config :: "json option \<Rightarrow> pydict" where
  "load_config loaded = (case loaded of Some (JObj kvs) \<Rightarrow> kvs | _ \<Rightarrow> [])"

text \<open>The tuple a layout entry gives (the body of the loop of \<^verbatim>\<open>cols_from_layout\<close>).\<close>

definition layout_item :: "json \<Rightarrow> pyexc + color" where
  "layout_item item =
     (case item of
        JObj kvs \<Rightarrow>
          bnd (py_int (dict_get kvs ''r'' (JInt 0))) (\<lambda>r.
          bnd (py_int (dict_get kvs ''g'' (JInt 0))) (\<lambda>g.
          bnd (py_int (dict_get kvs ''b'' (JInt 0))) (\<lambda>b.
          bnd (py_int (dict_get kvs ''br'' (JInt 0))) (\<lambda>br.
            Inr (b, g, r, clamp (min br BRIGHT_LIMIT) 0 255)))))
      | JStr txt \<Rightarrow>
          (let s0 = py_strip txt;
               (s, br) =
                 (if CHR '':'' \<in> set s0 then
                    (let (s1, brs) = split1 (CHR '':'') s0
                     in (s1, case int_of_str 10 brs of Inr v \<Rightarrow> v | Inl e \<Rightarrow> 64))
                  else (s0, 64))
           in if take 1 s = ''#'' \<and> length s = 7 then
                bnd (int_of_str 16 (take 2 (drop 1 s))) (\<lambda>r.
                bnd (int_of_str 16 (take 2 (drop 3 s))) (\<lambda>g.
                bnd (int_of_str 16 (take 2 (drop 5 s))) (\<lambda>b.
                  Inr (b, g, r, clamp (min br BRIGHT_LIMIT) 0 255))))
              else Inr (0, 0, 0, 0))
      | _ \<Rightarrow> Inr (0, 0, 0, 0))"

fun layout_loop :: "json \<Rightarrow> nat list \<Rightarrow> color list \<Rightarrow> pyexc + color list" where
  "layout_loop layout [] cols = Inr cols"
| "layout_loop layout (i # rest) cols =
     bnd (py_index layout i) (\<lambda>item.
     bnd (layout_item item) (\<lambda>c.
       layout_loop layout rest (cols @ [c])))"

definition cols_from_layout :: "json \<Rightarrow> pyexc + color list" where
  "cols_from_layout layout =
     bnd (py_len layout) (\<lambda>n.
     bnd (layout_loop layout [0 ..< min NUM_LEDS n] []) (\<lambda>cols.
       Inr (cols @ replicate (NUM_LEDS - length cols) (0, 0, 0, 0))))"

text \<open>\<^verbatim>\<open>x and k in x\<close>\<close>

definition has_key :: "string \<Rightarrow> json \<Rightarrow> pyexc + bool" where
  "has_key k x = (if truthy x then py_contains k x else Inr False)"

text \<open>
  The keys reach the resolvers as texts (\<^verbatim>\<open>get_system_key\<close> and \<^verbatim>\<open>get_rom_key\<close> return
  one), so \<^verbatim>\<open>system_key or ""\<close> is the key itself. \<open>rom_layout\<close> is the first \<^verbatim>\<open>if\<close> of
  \<^verbatim>\<open>lookup_start_layout\<close>: \<open>Some\<close> when it returns, \<open>None\<close> when control falls through.
\<close>

definition rom_layout :: "json \<Rightarrow> string \<Rightarrow> pyexc + color list option" where
  "rom_layout syscfg rom_key =
     bnd (has_key ''rom_overrides'' syscfg) (\<lambda>h.
       if h then
         bnd (py_getitem syscfg ''rom_overrides'') (\<lambda>ros.
         bnd (py_get ros rom_key JNull) (\<lambda>ro.
         bnd (has_key ''start_layout'' ro) (\<lambda>h2.
           if h2 then
             bnd (py_getitem ro ''start_layout'') (\<lambda>layout.
             bnd (cols_from_layout layout) (\<lambda>cols. Inr (Some cols)))
           else Inr None)))
       else Inr None)"

definition lookup_start_layout :: "pydict \<Rightarrow> string \<Rightarrow> string \<Rightarrow> pyexc + color list option" where
  "lookup_start_layout config system_key rom_key =
     (let syscfg = dict_get config system_key (JObj [])
      in bnd (rom_layout syscfg rom_key) (\<lambda>found.
           case found of
             Some cols \<Rightarrow> Inr (Some cols)
           | None \<Rightarrow>
               bnd (has_key ''start_layout'' syscfg) (\<lambda>h.
                 if h then
                   bnd (py_getitem syscfg ''start_layout'') (\<lambda>layout.
                   bnd (cols_from_layout layout) (\<lambda>cols. Inr (Some cols)))
                 else Inr None)))"

text \<open>Lines 145 and 152 read a colour dict the same way.\<close>

definition color_of_dict :: "pydict \<Rightarrow> pyexc + color" where
  "color_of_dict c =
     bnd (py_int (dict_get c ''b'' (JInt 0))) (\<lambda>b.
     bnd (py_int (dict_get c ''g'' (JInt 0))) (\<lambda>g.
     bnd (py_int (dict_get c ''r'' (JInt 0))) (\<lambda>r.
     bnd (py_int (dict_get c ''br'' (JInt 24))) (\<lambda>v.
       Inr (b, g, r, clamp (min v BRIGHT_LIMIT) 0 255)))))"

definition system_accent :: "pydict \<Rightarrow> string \<Rightarrow> pyexc + color option" where
  "system_accent config system_key =
     (let syscfg = dict_get config system_key (JObj [])
      in bnd (py_get syscfg ''accent'' JNull) (\<lambda>c.
           case c of
             JObj kvs \<Rightarrow> bnd (color_of_dict kvs) (\<lambda>col. Inr (Some col))
           | _ \<Rightarrow> Inr None))"

definition default_menu_color :: "pydict \<Rightarrow> pyexc + color" where
  "default_menu_color config =
     (let d = dict_get config ''defaults'' (JObj [])
      in bnd (py_get d ''menu_color'' JNull) (\<lambda>c.
           case c of
             JObj kvs \<Rightarrow> color_of_dict kvs
           | _ \<Rightarrow> Inr (0, 32, 64, 28)))"

definition default_attract_mode :: "pydict \<Rightarrow> pyexc + string" where
  "default_attract_mode config =
     (let d = dict_get config ''defaults'' (JObj [])
      in bnd (py_get d ''attract'' JNull) (\<lambda>a. py_lower (py_or a (JStr ''breath''))))"

section \<open>Events\<close>

text \<open>
  What the daemon reads from outside while it handles an event: the parsed configuration
  file (\<open>None\<close> when opening or parsing it raises), the lines of the launcher state file
  (\<open>None\<close> when it cannot be opened), and the two quantities computed in floating point
  from the clock, which are taken as given: \<open>lerp_int env a b s n\<close> is
  \<^verbatim>\<open>int(lerp(a, b, s/n))\<close> of \<^verbatim>\<open>fade_all\<close>, and \<open>pulse_levels env bbr\<close> lists
  \<^verbatim>\<open>int(bbr*f)\<close> of \<^verbatim>\<open>breath_frame\<close> for the frames \<^verbatim>\<open>anim_menu_pulse\<close> sends before its
  two seconds are over.
\<close>

record env =
  systems_json :: "json option"
  es_state :: "string list option"
  lerp_int :: "int \<Rightarrow> int \<Rightarrow> nat \<Rightarrow> nat \<Rightarrow> int"
  pulse_levels :: "int \<Rightarrow> int list"

definition read_es_state :: "string list option \<Rightarrow> (string \<rightharpoonup> string)" where
  "read_es_state f =
     (case f of
        None \<Rightarrow> Map.empty
      | Some lines \<Rightarrow>
          fold (\<lambda>line out.
                  if CHR ''='' \<in> set line then
                    (let (k, v) = split1 (CHR ''='') (py_strip line)
                     in out(py_strip k \<mapsto> py_strip v))
                  else out)
               lines Map.empty)"

text \<open>\<^verbatim>\<open>st.get(k) or y\<close> on the state dict, whose values are texts: \<^verbatim>\<open>None\<close> and the
  empty text are both false.\<close>

definition st_or :: "string option \<Rightarrow> string \<Rightarrow> string" where
  "st_or v y = (case v of Some s \<Rightarrow> if s \<noteq> [] then s else y | None \<Rightarrow> y)"

definition get_system_key :: "env \<Rightarrow> json \<Rightarrow> pyexc + string" where
  "get_system_key env evt =
     bnd (py_get evt ''system'' JNull) (\<lambda>v.
     bnd (py_lower (py_or v (JStr []))) (\<lambda>sysid.
       if sysid \<noteq> [] then Inr sysid
       else
         (let st = read_es_state (es_state env)
          in Inr (map lower_char (st_or (st ''SystemId'') (st_or (st ''System'') []))))))"

definition get_rom_key :: "env \<Rightarrow> json \<Rightarrow> pyexc + string" where
  "get_rom_key env evt =
     bnd (py_get evt ''rom'' JNull) (\<lambda>a.
     bnd (py_get evt ''rompath'' JNull) (\<lambda>b.
       (let rp0 = py_or a (py_or b (JStr []));
            rp = (if \<not> truthy rp0
                  then JStr (case read_es_state (es_state env) ''RomPath'' of
                               Some v \<Rightarrow> v | None \<Rightarrow> [])
                  else rp0)
        in case rp of
             JStr p \<Rightarrow> Inr (fst (splitext (basename p)))
           | _ \<Rightarrow> Inl TypeError)))"

section \<open>Animations\<close>

fun send_frames :: "sink \<Rightarrow> color list list \<Rightarrow> pyexc \<times> sink + sink" where
  "send_frames ser [] = Inr ser"
| "send_frames ser (cols # rest) =
     (case send_colors ser cols of
        Inl x \<Rightarrow> Inl x
      | Inr ser' \<Rightarrow> send_frames ser' rest)"

definition wipe_frames :: "color \<Rightarrow> color list list" where
  "wipe_frames color =
     map (\<lambda>i. fold (\<lambda>k cols. cols[k := color]) [0 ..< i + 1] all_off) [0 ..< NUM_LEDS]"

text \<open>\<^verbatim>\<open>int(ms_total/20)\<close> is \<open>ms_total div 20\<close> for the totals the daemon passes.\<close>

definition fade_all :: "env \<Rightarrow> int \<Rightarrow> int \<Rightarrow> int \<Rightarrow> color list list" where
  "fade_all env from_lvl to_lvl ms_total =
     (let steps = nat (max 1 (ms_total div 20))
      in map (\<lambda>s. solid 0 0 0 (clamp (lerp_int env from_lvl to_lvl s steps) 0 255))
             [0 ..< steps + 1])"

text \<open>
  An idle generator is described by how it was made; its frames depend on the clock and
  are not modelled. A generator runs no code until it is first advanced; \<open>idle_menu_base\<close>
  is the colour \<^verbatim>\<open>idle_menu\<close> then takes (\<^verbatim>\<open>accent if accent else default_menu_color()\<close>, a
  tuple of four being true), as \<^verbatim>\<open>anim_menu_pulse\<close> does when called.
\<close>

datatype idle_gen = Idle_menu "color option" | Idle_attract string

definition idle_menu_base :: "pydict \<Rightarrow> color option \<Rightarrow> pyexc + color" where
  "idle_menu_base config accent =
     (case accent of Some c \<Rightarrow> Inr c | None \<Rightarrow> default_menu_color config)"

definition anim_menu_pulse :: "env \<Rightarrow> pydict \<Rightarrow> sink \<Rightarrow> color option \<Rightarrow> pyexc \<times> sink + sink" where
  "anim_menu_pulse env config ser accent =
     (case idle_menu_base config accent of
        Inl e \<Rightarrow> Inl (e, ser)
      | Inr (bb, bg, br, bbr) \<Rightarrow>
          send_frames ser
            (map (\<lambda>lvl. replicate NUM_LEDS (bb, bg, br, clamp lvl 0 255)) (pulse_levels env bbr)))"

definition game_start_wipe :: "pydict \<Rightarrow> sink \<Rightarrow> string \<Rightarrow> pyexc \<times> sink + sink" where
  "game_start_wipe config ser system_key =
     (case system_accent config system_key of
        Inl e \<Rightarrow> Inl (e, ser)
      | Inr a \<Rightarrow>
          (let accent = (case a of Some c \<Rightarrow> c | None \<Rightarrow> (0, 64, 0, BRIGHT_LIMIT))
           in case send_frames ser (wipe_frames accent) of
                Inl x \<Rightarrow> Inl x
              | Inr ser' \<Rightarrow> send_colors ser' (solid 0 0 0 18)))"

definition anim_game_start :: "pydict \<Rightarrow> sink \<Rightarrow> string \<Rightarrow> string \<Rightarrow> pyexc \<times> sink + sink" where
  "anim_game_start config ser system_key rom_key =
     (case lookup_start_layout config system_key rom_key of
        Inl e \<Rightarrow> Inl (e, ser)
      | Inr None \<Rightarrow> game_start_wipe config ser system_key
      | Inr (Some layout) \<Rightarrow>
          if layout \<noteq> [] then send_colors ser layout
          else game_start_wipe config ser system_key)"

definition anim_game_end :: "env \<Rightarrow> sink \<Rightarrow> pyexc \<times> sink + sink" where
  "anim_game_end env ser =
     send_frames ser (wipe_frames (64, 0, 0, BRIGHT_LIMIT) @ fade_all env 28 10 600)"

definition anim_shutdown :: "env \<Rightarrow> sink \<Rightarrow> pyexc \<times> sink + sink" where
  "anim_shutdown env ser =
     send_frames ser
       (concat (replicate 3 [solid 0 0 0 BRIGHT_LIMIT, solid 0 0 0 8]) @ fade_all env 24 0 900)"

definition anim_reboot :: "env \<Rightarrow> sink \<Rightarrow> pyexc \<times> sink + sink" where
  "anim_reboot env ser =
     send_frames ser
       (wipe_frames (0, 64, 0, BRIGHT_LIMIT) @ wipe_frames (64, 0, 0, BRIGHT_LIMIT)
        @ fade_all env 28 0 500)"

definition anim_settings_changed :: "sink \<Rightarrow> pyexc \<times> sink + sink" where
  "anim_settings_changed ser =
     send_frames ser (concat (replicate 3 [solid 32 32 0 BRIGHT_LIMIT, all_off]))"

section \<open>The dispatcher\<close>

text \<open>
  The state \<^verbatim>\<open>main\<close> carries from one event to the next: the configuration, the serial
  port, the idle generator and the time of the last idle frame. \<open>handle_event\<close> is the
  body of the loop of \<^verbatim>\<open>main\<close> for one decoded line (lines 315 to 359); an exception leaves
  it with the state as it was when raised.
\<close>

record world =
  cfg :: pydict
  ser :: sink
  current_idle :: idle_gen
  last_idle :: real

definition raise_in :: "world \<Rightarrow> pyexc + 'a \<Rightarrow> ('a \<Rightarrow> pyexc \<times> world + world) \<Rightarrow> pyexc \<times> world + world" where
  "raise_in w m f = (case m of Inl e \<Rightarrow> Inl (e, w) | Inr x \<Rightarrow> f x)"

definition wrote :: "world \<Rightarrow> pyexc \<times> sink + sink \<Rightarrow> (world \<Rightarrow> pyexc \<times> world + world) \<Rightarrow> pyexc \<times> world + world" where
  "wrote w m f = (case m of Inl (e, s) \<Rightarrow> Inl (e, w\<lparr>ser := s\<rparr>) | Inr s \<Rightarrow> f (w\<lparr>ser := s\<rparr>))"

definition set_idle_menu :: "string \<Rightarrow> world \<Rightarrow> pyexc \<times> world + world" where
  "set_idle_menu syskey w =
     raise_in w (system_accent (cfg w) syskey) (\<lambda>a. Inr (w\<lparr>current_idle := Idle_menu a\<rparr>))"

definition event_name :: "json \<Rightarrow> pyexc + string" where
  "event_name evt = bnd (py_get evt ''event'' JNull) (\<lambda>v. py_lower (py_or v (JStr [])))"

definition event_int :: "json \<Rightarrow> string \<Rightarrow> int \<Rightarrow> pyexc + int" where
  "event_int evt k dflt = bnd (py_get evt k (JInt dflt)) py_int"

definition event_action :: "env \<Rightarrow> world \<Rightarrow> json \<Rightarrow> string \<Rightarrow> string \<Rightarrow> string \<Rightarrow> pyexc \<times> world + world" where
  "event_action env w evt name syskey romkey =
     (if name = ''menu'' then
        raise_in w (system_accent (cfg w) syskey) (\<lambda>accent.
          wrote w (anim_menu_pulse env (cfg w) (ser w) accent) (\<lambda>w1.
            Inr (w1\<lparr>current_idle := Idle_menu accent\<rparr>)))
      else if name = ''game-start'' then
        wrote w (anim_game_start (cfg w) (ser w) syskey romkey) (set_idle_menu syskey)
      else if name = ''game-end'' then
        wrote w (anim_game_end env (ser w)) (set_idle_menu syskey)
      else if name = ''shutdown'' then
        wrote w (anim_shutdown env (ser w)) Inr
      else if name = ''reboot'' then
        wrote w (anim_reboot env (ser w)) Inr
      else if name = ''settings-changed'' \<or> name = ''controls-changed'' then
        wrote w (anim_settings_changed (ser w)) Inr
      else if name = ''attract-on'' then
        raise_in w (default_attract_mode (cfg w)) (\<lambda>mode.
          Inr (w\<lparr>current_idle := Idle_attract mode\<rparr>))
      else if name = ''attract-off'' then
        set_idle_menu syskey w
      else if name = ''solid'' then
        raise_in w (event_int evt ''b'' 0) (\<lambda>b.
        raise_in w (event_int evt ''g'' 0) (\<lambda>g.
        raise_in w (event_int evt ''r'' 0) (\<lambda>r.
        raise_in w (event_int evt ''br'' 24) (\<lambda>br.
          wrote w (send_colors (ser w) (solid b g r br)) Inr))))
      else if name = ''off'' then
        wrote w (send_colors (ser w) all_off) Inr
      else Inr w)"

definition handle_event :: "env \<Rightarrow> world \<Rightarrow> json \<Rightarrow> pyexc \<times> world + world" where
  "handle_event env w evt =
     raise_in w (event_name evt) (\<lambda>name.
       if name = ''reload-config'' then
         Inr (w\<lparr>cfg := load_config (systems_json env), last_idle := 0\<rparr>)
       else
         raise_in w (get_system_key env evt) (\<lambda>syskey.
         raise_in w (get_rom_key env evt) (\<lambda>romkey.
           case event_action env w evt name syskey romkey of
             Inl x \<Rightarrow> Inl x
           | Inr w' \<Rightarrow> Inr (w'\<lparr>last_idle := 0\<rparr>))))"

section \<open>Notions used in the statements\<close>

text \<open>The tuple \<^verbatim>\<open>send_colors\<close> takes for a logical slot, and the four values of a tuple
  brought into the range of a byte: below 0 gives 0, above 255 gives 255.\<close>

definition slot :: "color list \<Rightarrow> nat \<Rightarrow> color" where
  "slot cols src = (if src < length cols then cols ! src else (0, 0, 0, 0))"

definition clamped :: "color \<Rightarrow> int list" where
  "clamped c =
     (case c of (b, g, r, br) \<Rightarrow>
        [max 0 (min 255 b), max 0 (min 255 g), max 0 (min 255 r), max 0 (min 255 br)])"

text \<open>A tuple whose brightness lies between 0 and \<open>BRIGHT_LIMIT\<close>.\<close>

definition capped_color :: "color \<Rightarrow> bool" where
  "capped_color c = (case c of (b, g, r, br) \<Rightarrow> 0 \<le> br \<and> br \<le> BRIGHT_LIMIT)"

text \<open>The event names the chain of \<^verbatim>\<open>main\<close> tests for.\<close>

definition recognized :: "string list" where
  "recognized =
     [''reload-config'', ''menu'', ''game-start'', ''game-end'', ''shutdown'', ''reboot'',
      ''settings-changed'', ''controls-changed'', ''attract-on'', ''attract-off'', ''solid'',
      ''off'']"

text \<open>An event as the data model has it: a dict whose \<^verbatim>\<open>system\<close>, \<^verbatim>\<open>rom\<close> and \<^verbatim>\<open>rompath\<close>
  are texts where present.\<close>

definition text_or_absent :: "pydict \<Rightarrow> string \<Rightarrow> bool" where
  "text_or_absent kvs k =
     (case map_of kvs k of None \<Rightarrow> True | Some (JStr s) \<Rightarrow> True | Some _ \<Rightarrow> False)"

definition typed_keys :: "json \<Rightarrow> bool" where
  "typed_keys evt =
     (case evt of
        JObj kvs \<Rightarrow>
          text_or_absent kvs ''system'' \<and> text_or_absent kvs ''rom''
          \<and> text_or_absent kvs ''rompath''
      | _ \<Rightarrow> False)"

text \<open>A path cut into its directory part (empty, or ending in a slash), the name of the
  file and its extension (empty for a name without a dot, else a dot and what follows the
  last dot of a name that is not made of dots only).\<close>

definition rom_path :: "string \<Rightarrow> string \<Rightarrow> string \<Rightarrow> bool" where
  "rom_path dir name ext =
     ((dir = [] \<or> last dir = CHR ''/'')
      \<and> dir @ name @ ext \<noteq> []
      \<and> CHR ''/'' \<notin> set name
      \<and> (if ext = [] then CHR ''.'' \<notin> set name
         else hd ext = CHR ''.'' \<and> CHR ''.'' \<notin> set (tl ext) \<and> CHR ''/'' \<notin> set (tl ext)
              \<and> list_ex (\<lambda>c. c \<noteq> CHR ''.'') name))"

text \<open>A decimal digit.\<close>

definition dec_digit :: "char \<Rightarrow> bool" where
  "dec_digit c = (c \<in> set ''0123456789'')"

text \<open>A hexadecimal digit, and the number two of them write.\<close>

definition hex_digit :: "char \<Rightarrow> bool" where
  "hex_digit c = (c \<in> set ''0123456789abcdefABCDEF'')"

definition hex_pair :: "char \<Rightarrow> char \<Rightarrow> int" where
  "hex_pair c d =
     (case (digit_val c, digit_val d) of
        (Some x, Some y) \<Rightarrow> int (16 * x + y)
      | _ \<Rightarrow> 0)"

text \<open>A call of \<^verbatim>\<open>lookup_start_layout\<close> in a state of the daemon: the function reads the
  global \<^verbatim>\<open>_cfg\<close> and assigns to nothing, so the state after the call is the state before.\<close>

definition call_lookup_start_layout ::
    "world \<Rightarrow> string \<Rightarrow> string \<Rightarrow> (pyexc + color list option) \<times> world" where
  "call_lookup_start_layout w system_key rom_key =
     (lookup_start_layout (cfg w) system_key rom_key, w)"

text \<open>An outcome of a handler started in \<open>w\<close>, returned or raised, whose state has the
  configuration of \<open>w\<close>.\<close>

definition keeps_cfg :: "world \<Rightarrow> pyexc \<times> world + world \<Rightarrow> bool" where
  "keeps_cfg w outcome =
     (case outcome of Inr w' \<Rightarrow> cfg w' = cfg w | Inl (e, w') \<Rightarrow> cfg w' = cfg w)"

text \<open>A configuration, an environment and a state to run the daemon on.\<close>

definition example_config :: pydict where
  "example_config =
     [(''snes'',
       JObj [(''start_layout'', JList [JStr ''#010203'']),
             (''accent'', JObj [(''b'', JInt 1), (''br'', JInt 255)]),
             (''rom_overrides'',
              JObj [(''Foo'',
                     JObj [(''start_layout'',
                            JList [JStr ''#00FF80:10'',
                                   JObj [(''r'', JInt 300), (''br'', JInt 255)]])])])]),
      (''nes'',
       JObj [(''rom_overrides'',
              JObj [(''Bar'', JObj [(''start_layout'', JList [JStr ''#0000FF''])])])]),
      (''defaults'', JObj [(''menu_color'', JObj [(''r'', JInt 9), (''br'', JInt 255)])])]"

definition example_env :: env where
  "example_env =
     \<lparr>systems_json = None, es_state = None,
      lerp_int = (\<lambda>a b s n. a), pulse_levels = (\<lambda>bbr. [])\<rparr>"

definition example_world :: world where
  "example_world =
     \<lparr>cfg = example_config, ser = [], current_idle = Idle_attract ''breath'', last_idle = 5\<rparr>"

section \<open>Properties of the frame codec\<close>

lemma bnd_Inr_iff: "bnd m f = Inr y \<longleftrightarrow> (\<exists>x. m = Inr x \<and> f x = Inr y)"
  by (cases m) (simp_all add: bnd_def)

lemma bnd_Inr [simp]: "bnd (Inr x) f = f x"
  by (simp add: bnd_def)

lemma bnd_Inl [simp]: "bnd (Inl e) f = Inl e"
  by (simp add: bnd_def)

lemma clamp_byte: "0 \<le> clamp x 0 255 \<and> clamp x 0 255 \<le> 255"
  by (simp add: clamp_def)

lemma clamp_idem: "clamp (clamp x 0 255) 0 255 = clamp x 0 255"
  by (simp add: clamp_def)

lemma clamp_max_min: "clamp x 0 255 = max 0 (min 255 x)"
  by (simp add: clamp_def)

lemma clamped_clamp:
  "clamped (b, g, r, br) = [clamp b 0 255, clamp g 0 255, clamp r 0 255, clamp br 0 255]"
  by (simp add: clamped_def clamp_max_min)

lemma py_bytes_clamped:
  "py_bytes [clamp b 0 255, clamp g 0 255, clamp r 0 255, clamp br 0 255] =
     Inr (map word_of_int [clamp b 0 255, clamp g 0 255, clamp r 0 255, clamp br 0 255])"
  by (simp add: py_bytes_def clamp_def)

lemma pack_payload_eq:
  "pack_payload acc cols = Inr (acc @ concat (map (\<lambda>c. map word_of_int (clamped c)) cols))"
proof (induction cols arbitrary: acc)
  case Nil
  show ?case by simp
next
  case (Cons c cols)
  obtain b g r br where c: "c = (b, g, r, br)"
    by (cases c) auto
  show ?case
    unfolding c by (simp add: py_bytes_clamped Cons.IH clamped_clamp)
qed

lemma uint_clamp: "uint (word_of_int (clamp x 0 255) :: byte) = clamp x 0 255"
proof -
  have "0 \<le> clamp x 0 255" and "clamp x 0 255 < 2 ^ 8"
    using clamp_byte [of x] by simp_all
  then show ?thesis
    by (simp add: uint_word_of_int take_bit_int_eq_self)
qed

lemma map_uint_clamped: "map (\<lambda>x. uint (word_of_int x :: byte)) (clamped c) = clamped c"
  by (cases c) (simp add: clamped_clamp uint_clamp)

lemma length_clamped: "length (clamped c) = 4"
  by (cases c) (simp add: clamped_def)

lemma send_colors_eq:
  "send_colors s cols =
     Inr (s @ [HEADER @ concat (map (\<lambda>src. map word_of_int (clamped (slot cols src))) ORDER)])"
  by (simp add: send_colors_def pack_colors_def pack_payload_eq slot_def comp_def)

lemma length_concat_4:
  "(\<And>x. length (f x) = 4) \<Longrightarrow> length (concat (map f xs)) = 4 * length xs"
  by (induction xs) auto

text \<open>
  C1. Whatever integers the tuples hold, and however many tuples there are,
  \<^verbatim>\<open>send_colors\<close> does not raise and writes one byte string of \<open>length HEADER + 4 * NUM_LEDS\<close>
  bytes: the header, then for each entry of \<open>ORDER\<close> the four values (blue, green, red,
  brightness) of the tuple at that index, each brought into 0..255 (\<open>max 0 (min 255 x)\<close>:
  a value below 0 is sent as 0, one above 255 as 255, any other as itself), with the
  all-zero tuple where the index is past the end of the list.
\<close>

theorem send_colors_frame:
  "\<exists>frame. send_colors s cols = Inr (s @ [frame])
     \<and> length frame = length HEADER + 4 * NUM_LEDS
     \<and> take (length HEADER) frame = HEADER
     \<and> map uint (drop (length HEADER) frame) = concat (map (\<lambda>src. clamped (slot cols src)) ORDER)
     \<and> list_all (\<lambda>v. 0 \<le> v \<and> v \<le> 255) (map uint (drop (length HEADER) frame))"
proof -
  let ?p = "concat (map (\<lambda>src. map word_of_int (clamped (slot cols src))) ORDER) :: byte list"
  have len: "length ?p = 4 * NUM_LEDS"
    using length_concat_4 [of "\<lambda>src. map word_of_int (clamped (slot cols src)) :: byte list" ORDER]
    by (simp add: length_clamped ORDER_def)
  have vals: "map uint ?p = concat (map (\<lambda>src. clamped (slot cols src)) ORDER)"
    by (simp add: map_concat comp_def map_uint_clamped)
  have rng: "list_all (\<lambda>v. 0 \<le> v \<and> v \<le> 255) (concat (map (\<lambda>src. clamped (slot cols src)) ORDER))"
    by (auto simp: list_all_iff clamped_def split: prod.splits)
  show ?thesis
    using len vals rng by (intro exI [of _ "HEADER @ ?p"]) (simp add: send_colors_eq)
qed

text \<open>
  C1 on a list of two tuples: 300 and 999 are sent as 255, -5 as 0, 256 as 255, the values
  in range as they are, and the five missing tuples as zeros, after the 15 bytes of the
  header.
\<close>

theorem send_colors_frame_witness:
  "\<exists>frame. send_colors [] [(300, - 5, 7, 999), (1, 2, 3, 256)] = Inr [frame]
     \<and> length frame = 43
     \<and> take 15 frame = HEADER
     \<and> map uint (drop 15 frame) =
         [255, 0, 7, 255, 1, 2, 3, 255, 0, 0, 0, 0, 0, 0, 0, 0, 0, 0, 0, 0, 0, 0, 0, 0, 0, 0, 0, 0]"
proof -
  let ?cols = "[(300, - 5, 7, 999), (1, 2, 3, 256)] :: color list"
  have l: "length HEADER = 15"
    by (simp add: HEADER_def)
  have n: "NUM_LEDS = 7"
    by (simp add: NUM_LEDS_def)
  have v: "concat (map (\<lambda>src. clamped (slot ?cols src)) ORDER) =
      [255, 0, 7, 255, 1, 2, 3, 255, 0, 0, 0, 0, 0, 0, 0, 0, 0, 0, 0, 0, 0, 0, 0, 0, 0, 0, 0, 0]"
    by code_simp
  from send_colors_frame [of "[]" ?cols] obtain frame where
    "send_colors [] ?cols = Inr ([] @ [frame])"
    "length frame = length HEADER + 4 * NUM_LEDS"
    "take (length HEADER) frame = HEADER"
    "map uint (drop (length HEADER) frame) = concat (map (\<lambda>src. clamped (slot ?cols src)) ORDER)"
    by blast
  then show ?thesis
    unfolding l n v by (intro exI [of _ frame]) simp
qed

section \<open>Properties of the resolvers\<close>

lemma capped: "0 \<le> clamp (min v BRIGHT_LIMIT) 0 255 \<and> clamp (min v BRIGHT_LIMIT) 0 255 \<le> BRIGHT_LIMIT"
  by (auto simp: clamp_def BRIGHT_LIMIT_def)

lemma BRIGHT_LIMIT_nonneg: "0 \<le> BRIGHT_LIMIT"
  by (simp add: BRIGHT_LIMIT_def)

lemma capped_zero: "capped_color (0, 0, 0, 0)"
  by (simp add: capped_color_def BRIGHT_LIMIT_def)

lemma layout_item_capped:
  assumes "layout_item item = Inr c"
  shows "capped_color c"
proof (cases item)
  case (JObj kvs)
  with assms show ?thesis
    by (auto simp: layout_item_def bnd_Inr_iff capped_color_def capped)
next
  case (JStr t)
  with assms show ?thesis
    by (auto simp: layout_item_def bnd_Inr_iff capped_color_def capped Let_def BRIGHT_LIMIT_nonneg
        split: if_splits prod.splits)
qed (insert assms, auto simp: layout_item_def capped_zero)

lemma layout_loop_capped:
  "layout_loop layout idx acc = Inr cols \<Longrightarrow> list_all capped_color acc \<Longrightarrow> list_all capped_color cols"
proof (induction idx arbitrary: acc)
  case Nil
  then show ?case by simp
next
  case (Cons i idx)
  from Cons.prems(1) obtain item c where
    c: "layout_item item = Inr c" and rest: "layout_loop layout idx (acc @ [c]) = Inr cols"
    by (auto simp: bnd_Inr_iff)
  have "list_all capped_color (acc @ [c])"
    using Cons.prems(2) layout_item_capped [OF c] by simp
  with rest show ?case by (rule Cons.IH)
qed

lemma cols_from_layout_capped:
  assumes "cols_from_layout layout = Inr cols"
  shows "list_all capped_color cols"
proof -
  from assms obtain n cs where
    loop: "layout_loop layout [0 ..< min NUM_LEDS n] [] = Inr cs"
    and cols: "cols = cs @ replicate (NUM_LEDS - length cs) (0, 0, 0, 0)"
    by (auto simp: cols_from_layout_def bnd_Inr_iff)
  have "list_all capped_color cs"
    using layout_loop_capped [OF loop] by simp
  then show ?thesis
    by (auto simp: cols list_all_iff capped_zero)
qed

lemma color_of_dict_capped: "color_of_dict kvs = Inr c \<Longrightarrow> capped_color c"
  by (auto simp: color_of_dict_def bnd_Inr_iff capped_color_def capped)

lemma system_accent_capped:
  assumes "system_accent config k = Inr (Some c)"
  shows "capped_color c"
proof -
  from assms obtain a where
    r: "(case a of JObj kvs \<Rightarrow> bnd (color_of_dict kvs) (\<lambda>col. Inr (Some col)) | _ \<Rightarrow> Inr None)
          = Inr (Some c)"
    by (auto simp: system_accent_def Let_def bnd_Inr_iff)
  then show ?thesis
    by (cases a) (auto simp: bnd_Inr_iff dest: color_of_dict_capped)
qed

lemma default_menu_color_capped:
  assumes "default_menu_color config = Inr c"
  shows "capped_color c"
proof -
  from assms obtain a where
    r: "(case a of JObj kvs \<Rightarrow> color_of_dict kvs | _ \<Rightarrow> Inr (0, 32, 64, 28)) = Inr c"
    by (auto simp: default_menu_color_def Let_def bnd_Inr_iff)
  then show ?thesis
    by (cases a) (auto simp: capped_color_def BRIGHT_LIMIT_def dest: color_of_dict_capped)
qed

lemma rom_layout_capped: "rom_layout sc rk = Inr (Some cols) \<Longrightarrow> list_all capped_color cols"
  by (auto simp: rom_layout_def bnd_Inr_iff split: if_splits dest: cols_from_layout_capped)

lemma lookup_start_layout_capped:
  "lookup_start_layout config k rk = Inr (Some cols) \<Longrightarrow> list_all capped_color cols"
  by (auto simp: lookup_start_layout_def Let_def bnd_Inr_iff
      split: if_splits option.splits dest: cols_from_layout_capped rom_layout_capped)

lemma has_key_JObj: "map_of kvs k = Some v \<Longrightarrow> has_key k (JObj kvs) = Inr True"
proof -
  assume a: "map_of kvs k = Some v"
  then have "(k, v) \<in> set kvs" by (rule map_of_SomeD)
  then have "kvs \<noteq> []" and "k \<in> fst ` set kvs" by force+
  then show ?thesis by (simp add: has_key_def py_contains_def)
qed

lemma py_getitem_JObj: "map_of kvs k = Some v \<Longrightarrow> py_getitem (JObj kvs) k = Inr v"
  by (simp add: py_getitem_def)

lemma rom_layout_found:
  assumes "map_of sc ''rom_overrides'' = Some (JObj ros)"
    and "map_of ros rk = Some (JObj ro)"
    and "map_of ro ''start_layout'' = Some rl"
  shows "rom_layout (JObj sc) rk = bnd (cols_from_layout rl) (\<lambda>cols. Inr (Some cols))"
  using assms
  by (simp add: rom_layout_def has_key_JObj py_getitem_JObj py_get_def dict_get_def)

lemma lookup_rom_override:
  assumes "map_of config sk = Some (JObj sc)"
    and "map_of sc ''rom_overrides'' = Some (JObj ros)"
    and "map_of ros rk = Some (JObj ro)"
    and "map_of ro ''start_layout'' = Some rl"
  shows "lookup_start_layout config sk rk = bnd (cols_from_layout rl) (\<lambda>cols. Inr (Some cols))"
proof -
  have "dict_get config sk (JObj []) = JObj sc"
    using assms(1) by (simp add: dict_get_def)
  then show ?thesis
    using rom_layout_found [OF assms(2-4)]
    by (cases "cols_from_layout rl") (simp_all add: lookup_start_layout_def)
qed

text \<open>
  C4. When the system's entry has a \<^verbatim>\<open>rom_overrides\<close> dict whose entry for the ROM key
  has a \<^verbatim>\<open>start_layout\<close>, \<^verbatim>\<open>lookup_start_layout\<close> is the conversion of that layout,
  whether or not the system's entry has a \<^verbatim>\<open>start_layout\<close> of its own. In the example
  below both are present and differ.
\<close>

theorem rom_override_first:
  assumes "map_of config sk = Some (JObj sc)"
    and "map_of sc ''rom_overrides'' = Some (JObj ros)"
    and "map_of ros rk = Some (JObj ro)"
    and "map_of ro ''start_layout'' = Some rl"
  shows "lookup_start_layout config sk rk = bnd (cols_from_layout rl) (\<lambda>cols. Inr (Some cols))"
  using assms by (rule lookup_rom_override)

text \<open>
  C4 on a system with both layouts: the one of the ROM is returned, and the one of the
  system would have given another list.
\<close>

theorem rom_override_first_witness:
  "lookup_start_layout
     [(''snes'', JObj [(''start_layout'', JList [JStr ''#010203'']),
                       (''rom_overrides'',
                        JObj [(''Foo'', JObj [(''start_layout'', JList [JStr ''#00FF80:10''])])])])]
     ''snes'' ''Foo''
   = Inr (Some [(128, 255, 0, 10), (0, 0, 0, 0), (0, 0, 0, 0), (0, 0, 0, 0), (0, 0, 0, 0),
                (0, 0, 0, 0), (0, 0, 0, 0)])
   \<and> cols_from_layout (JList [JStr ''#010203''])
     = Inr [(3, 2, 1, 64), (0, 0, 0, 0), (0, 0, 0, 0), (0, 0, 0, 0), (0, 0, 0, 0),
            (0, 0, 0, 0), (0, 0, 0, 0)]"
proof -
  let ?ro = "[(''start_layout'', JList [JStr ''#00FF80:10''])]"
  let ?ros = "[(''Foo'', JObj ?ro)]"
  let ?sc = "[(''start_layout'', JList [JStr ''#010203'']), (''rom_overrides'', JObj ?ros)]"
  have "lookup_start_layout [(''snes'', JObj ?sc)] ''snes'' ''Foo''
          = bnd (cols_from_layout (JList [JStr ''#00FF80:10''])) (\<lambda>cols. Inr (Some cols))"
    by (rule rom_override_first [where sc = ?sc and ros = ?ros and ro = ?ro]) simp_all
  moreover have "bnd (cols_from_layout (JList [JStr ''#00FF80:10''])) (\<lambda>cols. Inr (Some cols))
          = Inr (Some [(128, 255, 0, 10), (0, 0, 0, 0), (0, 0, 0, 0), (0, 0, 0, 0), (0, 0, 0, 0),
                       (0, 0, 0, 0), (0, 0, 0, 0)])"
    by code_simp
  moreover have "cols_from_layout (JList [JStr ''#010203''])
     = Inr [(3, 2, 1, 64), (0, 0, 0, 0), (0, 0, 0, 0), (0, 0, 0, 0), (0, 0, 0, 0),
            (0, 0, 0, 0), (0, 0, 0, 0)]"
    by code_simp
  ultimately show ?thesis by simp
qed

text \<open>
  C3. Every colour the resolvers return from the configuration has a brightness between
  0 and \<open>BRIGHT_LIMIT\<close>: each tuple of \<^verbatim>\<open>cols_from_layout\<close> (and so of
  \<^verbatim>\<open>lookup_start_layout\<close>), the tuple of \<^verbatim>\<open>system_accent\<close> and the tuple of
  \<^verbatim>\<open>default_menu_color\<close>.
\<close>

theorem config_brightness_capped:
  "(cols_from_layout layout = Inr cols \<longrightarrow> list_all capped_color cols)
   \<and> (lookup_start_layout config k rk = Inr (Some cols') \<longrightarrow> list_all capped_color cols')
   \<and> (system_accent config k = Inr (Some c) \<longrightarrow> capped_color c)
   \<and> (default_menu_color config = Inr c' \<longrightarrow> capped_color c')"
  using cols_from_layout_capped lookup_start_layout_capped system_accent_capped
    default_menu_color_capped
  by blast

text \<open>
  C3 on a configuration that asks for brightness 255 in a layout entry, in a text entry,
  in the accent and in the default menu colour: 170 is returned each time.
\<close>

theorem config_brightness_capped_witness:
  "cols_from_layout (JList [JObj [(''br'', JInt 255)], JStr ''#00FF80:255''])
     = Inr [(0, 0, 0, 170), (128, 255, 0, 170), (0, 0, 0, 0), (0, 0, 0, 0), (0, 0, 0, 0),
            (0, 0, 0, 0), (0, 0, 0, 0)]
   \<and> list_all capped_color
        [(0, 0, 0, 170), (128, 255, 0, 170), (0, 0, 0, 0), (0, 0, 0, 0), (0, 0, 0, 0),
         (0, 0, 0, 0), (0, 0, 0, 0)]
   \<and> lookup_start_layout
        [(''snes'', JObj [(''start_layout'', JList [JObj [(''br'', JInt 255)]]),
                          (''accent'', JObj [(''b'', JInt 1), (''br'', JInt 255)])]),
         (''defaults'', JObj [(''menu_color'', JObj [(''r'', JInt 9), (''br'', JInt 255)])])]
        ''snes'' ''Foo''
     = Inr (Some [(0, 0, 0, 170), (0, 0, 0, 0), (0, 0, 0, 0), (0, 0, 0, 0), (0, 0, 0, 0),
                  (0, 0, 0, 0), (0, 0, 0, 0)])
   \<and> list_all capped_color
        [(0, 0, 0, 170), (0, 0, 0, 0), (0, 0, 0, 0), (0, 0, 0, 0), (0, 0, 0, 0),
         (0, 0, 0, 0), (0, 0, 0, 0)]
   \<and> system_accent
        [(''snes'', JObj [(''start_layout'', JList [JObj [(''br'', JInt 255)]]),
                          (''accent'', JObj [(''b'', JInt 1), (''br'', JInt 255)])]),
         (''defaults'', JObj [(''menu_color'', JObj [(''r'', JInt 9), (''br'', JInt 255)])])]
        ''snes''
     = Inr (Some (1, 0, 0, 170))
   \<and> capped_color (1, 0, 0, 170)
   \<and> default_menu_color
        [(''snes'', JObj [(''start_layout'', JList [JObj [(''br'', JInt 255)]]),
                          (''accent'', JObj [(''b'', JInt 1), (''br'', JInt 255)])]),
         (''defaults'', JObj [(''menu_color'', JObj [(''r'', JInt 9), (''br'', JInt 255)])])]
     = Inr (0, 0, 9, 170)
   \<and> capped_color (0, 0, 9, 170)"
proof -
  let ?layout = "JList [JObj [(''br'', JInt 255)], JStr ''#00FF80:255'']"
  let ?config =
    "[(''snes'', JObj [(''start_layout'', JList [JObj [(''br'', JInt 255)]]),
                       (''accent'', JObj [(''b'', JInt 1), (''br'', JInt 255)])]),
      (''defaults'', JObj [(''menu_color'', JObj [(''r'', JInt 9), (''br'', JInt 255)])])]"
  let ?cols = "[(0, 0, 0, 170), (128, 255, 0, 170), (0, 0, 0, 0), (0, 0, 0, 0), (0, 0, 0, 0),
                (0, 0, 0, 0), (0, 0, 0, 0)] :: color list"
  let ?cols' = "[(0, 0, 0, 170), (0, 0, 0, 0), (0, 0, 0, 0), (0, 0, 0, 0), (0, 0, 0, 0),
                 (0, 0, 0, 0), (0, 0, 0, 0)] :: color list"
  have e1: "cols_from_layout ?layout = Inr ?cols"
    by code_simp
  have e2: "lookup_start_layout ?config ''snes'' ''Foo'' = Inr (Some ?cols')"
    by code_simp
  have e3: "system_accent ?config ''snes'' = Inr (Some (1, 0, 0, 170))"
    by code_simp
  have e4: "default_menu_color ?config = Inr (0, 0, 9, 170)"
    by code_simp
  from config_brightness_capped
         [of ?layout ?cols ?config "''snes''" "''Foo''" ?cols' "(1, 0, 0, 170)" "(0, 0, 9, 170)"]
    e1 e2 e3 e4
  show ?thesis by blast
qed

section \<open>The dispatcher on unknown events and on a failed reload\<close>

lemma raise_in_Inr [simp]: "raise_in w (Inr x) f = f x"
  by (simp add: raise_in_def)

lemma raise_in_Inl [simp]: "raise_in w (Inl e) f = Inl (e, w)"
  by (simp add: raise_in_def)

lemma wrote_Inr [simp]: "wrote w (Inr s) f = f (w\<lparr>ser := s\<rparr>)"
  by (simp add: wrote_def)

lemma event_action_unknown:
  "name \<notin> set recognized \<Longrightarrow> event_action env w evt name sk rk = Inr w"
  by (simp add: recognized_def event_action_def)

lemma py_lower_or_text:
  "text_or_absent kvs k \<Longrightarrow> \<exists>s. py_lower (py_or (dict_get kvs k JNull) (JStr [])) = Inr s"
  by (auto simp: text_or_absent_def dict_get_def py_or_def py_lower_def split: option.splits json.splits)

lemma get_system_key_typed:
  assumes "typed_keys evt"
  shows "\<exists>sk. get_system_key env evt = Inr sk"
proof -
  from assms obtain kvs where evt: "evt = JObj kvs" and t: "text_or_absent kvs ''system''"
    by (auto simp: typed_keys_def split: json.splits)
  from py_lower_or_text [OF t] obtain s where
    "py_lower (py_or (dict_get kvs ''system'' JNull) (JStr [])) = Inr s" ..
  then show ?thesis
    by (simp add: get_system_key_def evt py_get_def Let_def)
qed

lemma get_rom_key_typed:
  assumes "typed_keys evt"
  shows "\<exists>rk. get_rom_key env evt = Inr rk"
proof -
  from assms obtain kvs where evt: "evt = JObj kvs"
    and a: "text_or_absent kvs ''rom''" and b: "text_or_absent kvs ''rompath''"
    by (auto simp: typed_keys_def split: json.splits)
  have "\<exists>p. (let rp0 = py_or (dict_get kvs ''rom'' JNull) (py_or (dict_get kvs ''rompath'' JNull) (JStr []))
        in if \<not> truthy rp0
           then JStr (case read_es_state (es_state env) ''RomPath'' of Some v \<Rightarrow> v | None \<Rightarrow> [])
           else rp0) = JStr p"
    using a b
    by (auto simp: text_or_absent_def dict_get_def py_or_def Let_def split: option.splits json.splits)
  then show ?thesis
    by (auto simp: get_rom_key_def evt py_get_def Let_def)
qed

lemma handle_event_unknown:
  assumes "event_name evt = Inr name" and "name \<notin> set recognized"
  shows "handle_event env w evt =
     (case get_system_key env evt of
        Inl e \<Rightarrow> Inl (e, w)
      | Inr sk \<Rightarrow> (case get_rom_key env evt of Inl e \<Rightarrow> Inl (e, w) | Inr rk \<Rightarrow> Inr (w\<lparr>last_idle := 0\<rparr>)))"
proof -
  have "name \<noteq> ''reload-config''"
    using assms(2) by (auto simp: recognized_def)
  then show ?thesis
    using assms event_action_unknown [OF assms(2)]
    by (simp add: handle_event_def split: sum.splits)
qed

text \<open>
  C7. An event whose name is none of the names \<^verbatim>\<open>main\<close> tests for writes nothing to the
  serial port and leaves the idle generator and the configuration as they are, both when
  the handler returns and when it raises (the system and ROM keys are computed before the
  name is looked at, and raise on a value that is not a text). When the event's
  \<^verbatim>\<open>system\<close>, \<^verbatim>\<open>rom\<close> and \<^verbatim>\<open>rompath\<close> are texts or absent, the handler returns and
  only the time of the last idle frame is reset.
\<close>

theorem unknown_event_ignored:
  assumes "event_name evt = Inr name" and "name \<notin> set recognized"
  shows "(\<exists>w'. (handle_event env w evt = Inr w' \<or> (\<exists>e. handle_event env w evt = Inl (e, w')))
            \<and> ser w' = ser w \<and> current_idle w' = current_idle w \<and> cfg w' = cfg w)
       \<and> (typed_keys evt \<longrightarrow> handle_event env w evt = Inr (w\<lparr>last_idle := 0\<rparr>))"
proof (intro conjI impI)
  show "\<exists>w'. (handle_event env w evt = Inr w' \<or> (\<exists>e. handle_event env w evt = Inl (e, w')))
            \<and> ser w' = ser w \<and> current_idle w' = current_idle w \<and> cfg w' = cfg w"
    unfolding handle_event_unknown [OF assms]
    by (cases "get_system_key env evt"; cases "get_rom_key env evt") auto
next
  assume t: "typed_keys evt"
  from get_system_key_typed [OF t, of env] get_rom_key_typed [OF t, of env]
  show "handle_event env w evt = Inr (w\<lparr>last_idle := 0\<rparr>)"
    unfolding handle_event_unknown [OF assms] by auto
qed

text \<open>
  C7 on the event \<^verbatim>\<open>{"event": "Power-Saving", "system": "snes"}\<close>.
\<close>

theorem unknown_event_ignored_witness:
  "handle_event example_env example_world
     (JObj [(''event'', JStr ''Power-Saving''), (''system'', JStr ''snes'')])
   = Inr (example_world\<lparr>last_idle := 0\<rparr>)"
proof -
  let ?evt = "JObj [(''event'', JStr ''Power-Saving''), (''system'', JStr ''snes'')]"
  have h1: "event_name ?evt = Inr ''power-saving''"
    by code_simp
  have h2: "''power-saving'' \<notin> set recognized"
    by (simp add: recognized_def)
  have h3: "typed_keys ?evt"
    by code_simp
  from unknown_event_ignored [OF h1 h2, of example_env example_world] h3
  show ?thesis by blast
qed

text \<open>
  C10. When the configuration file cannot be opened or parsed, a \<^verbatim>\<open>reload-config\<close> event
  replaces the configuration in memory by the empty dict, whatever it was; on the empty
  dict \<^verbatim>\<open>lookup_start_layout\<close> and \<^verbatim>\<open>system_accent\<close> find nothing,
  \<^verbatim>\<open>default_menu_color\<close> is (0, 32, 64, 28) and \<^verbatim>\<open>default_attract_mode\<close> is
  \<^verbatim>\<open>breath\<close>.
\<close>

theorem failed_reload_empties_config:
  assumes "event_name evt = Inr ''reload-config''" and "systems_json env = None"
  shows "handle_event env w evt = Inr (w\<lparr>cfg := [], last_idle := 0\<rparr>)
       \<and> lookup_start_layout [] sk rk = Inr None
       \<and> system_accent [] sk = Inr None
       \<and> default_menu_color [] = Inr (0, 32, 64, 28)
       \<and> default_attract_mode [] = Inr ''breath''"
proof (intro conjI)
  show "handle_event env w evt = Inr (w\<lparr>cfg := [], last_idle := 0\<rparr>)"
    using assms by (simp add: handle_event_def load_config_def)
  show "lookup_start_layout [] sk rk = Inr None"
    by (simp add: lookup_start_layout_def rom_layout_def has_key_def dict_get_def)
  show "system_accent [] sk = Inr None"
    by (simp add: system_accent_def dict_get_def py_get_def)
  show "default_menu_color [] = Inr (0, 32, 64, 28)"
    by (simp add: default_menu_color_def dict_get_def py_get_def)
  show "default_attract_mode [] = Inr ''breath''"
    by (simp add: default_attract_mode_def dict_get_def py_get_def py_or_def py_lower_def lower_char_def)
qed

text \<open>
  C10 on a state whose configuration has a \<^verbatim>\<open>snes\<close> entry.
\<close>

theorem failed_reload_empties_config_witness:
  "handle_event example_env example_world (JObj [(''event'', JStr ''RELOAD-CONFIG'')])
     = Inr (example_world\<lparr>cfg := [], last_idle := 0\<rparr>)
   \<and> lookup_start_layout [] ''snes'' ''Foo'' = Inr None
   \<and> system_accent [] ''snes'' = Inr None
   \<and> default_menu_color [] = Inr (0, 32, 64, 28)
   \<and> default_attract_mode [] = Inr ''breath''"
proof -
  have h1: "event_name (JObj [(''event'', JStr ''RELOAD-CONFIG'')]) = Inr ''reload-config''"
    by code_simp
  have h2: "systems_json example_env = None"
    by (simp add: example_env_def)
  from failed_reload_empties_config [OF h1 h2, of example_world "''snes''" "''Foo''"]
  show ?thesis .
qed

section \<open>The game-start and solid events\<close>

lemma layout_loop_length:
  "layout_loop layout idx acc = Inr cols \<Longrightarrow> length cols = length acc + length idx"
proof (induction idx arbitrary: acc)
  case Nil
  then show ?case by simp
next
  case (Cons i idx)
  from Cons.prems obtain c where "layout_loop layout idx (acc @ [c]) = Inr cols"
    by (auto simp: bnd_Inr_iff)
  from Cons.IH [OF this] show ?case by simp
qed

lemma cols_from_layout_length:
  assumes "cols_from_layout layout = Inr cols"
  shows "length cols = NUM_LEDS"
proof -
  from assms obtain n cs where
    loop: "layout_loop layout [0 ..< min NUM_LEDS n] [] = Inr cs"
    and cols: "cols = cs @ replicate (NUM_LEDS - length cs) (0, 0, 0, 0)"
    by (auto simp: cols_from_layout_def bnd_Inr_iff)
  from layout_loop_length [OF loop] have "length cs \<le> NUM_LEDS" by simp
  then show ?thesis by (simp add: cols)
qed

lemma game_start_layout_frame:
  assumes "event_name evt = Inr ''game-start''"
    and "get_system_key env evt = Inr sk"
    and "get_rom_key env evt = Inr rk"
    and "map_of (cfg w) sk = Some (JObj sc)"
    and "map_of sc ''rom_overrides'' = Some (JObj ros)"
    and "map_of ros rk = Some (JObj ro)"
    and "map_of ro ''start_layout'' = Some rl"
    and "cols_from_layout rl = Inr cols"
    and "system_accent (cfg w) sk = Inr accent"
  shows "\<exists>frame. send_colors (ser w) cols = Inr (ser w @ [frame])
           \<and> handle_event env w evt =
               Inr (w\<lparr>ser := ser w @ [frame], current_idle := Idle_menu accent, last_idle := 0\<rparr>)"
proof -
  define frame where
    "frame = HEADER @ concat (map (\<lambda>src. map word_of_int (clamped (slot cols src))) ORDER)"
  have f: "send_colors (ser w) cols = Inr (ser w @ [frame])"
    by (simp add: send_colors_eq frame_def)
  have look: "lookup_start_layout (cfg w) sk rk = Inr (Some cols)"
    using lookup_rom_override [OF assms(4-7)] assms(8) by simp
  have ne: "cols \<noteq> []"
    using cols_from_layout_length [OF assms(8)] by (auto simp: NUM_LEDS_def)
  have anim: "anim_game_start (cfg w) (ser w) sk rk = Inr (ser w @ [frame])"
    by (simp add: anim_game_start_def look ne f)
  have "event_action env w evt ''game-start'' sk rk =
          Inr (w\<lparr>ser := ser w @ [frame], current_idle := Idle_menu accent\<rparr>)"
    by (simp add: event_action_def anim set_idle_menu_def assms(9))
  then have "handle_event env w evt =
      Inr (w\<lparr>ser := ser w @ [frame], current_idle := Idle_menu accent, last_idle := 0\<rparr>)"
    by (simp add: handle_event_def assms(1-3))
  with f show ?thesis by blast
qed

lemma rfind_absent: "c \<notin> set p \<Longrightarrow> rfind p c = - 1"
  by (simp add: rfind_def)

lemma rfind_last:
  assumes "c \<notin> set t"
  shows "rfind (h @ c # t) c = int (length h)"
proof -
  have "takeWhile (\<lambda>x. x \<noteq> c) (rev t @ c # rev h)
          = rev t @ takeWhile (\<lambda>x. x \<noteq> c) (c # rev h)"
    by (rule takeWhile_append2) (use assms in auto)
  then show ?thesis
    by (simp add: rfind_def)
qed

lemma basename_path:
  assumes "dir = [] \<or> last dir = CHR ''/''" and "CHR ''/'' \<notin> set b"
  shows "basename (dir @ b) = b"
proof (cases "dir = []")
  case True
  then show ?thesis
    using assms(2) by (simp add: basename_def rfind_absent)
next
  case False
  with assms(1) obtain h where d: "dir = h @ [CHR ''/'']"
    by (metis append_butlast_last_id)
  have r: "rfind (h @ CHR ''/'' # b) (CHR ''/'') = int (length h)"
    using assms(2) by (rule rfind_last)
  have n: "nat (int (length h) + 1) = Suc (length h)"
    by simp
  have "drop (Suc (length h)) (h @ CHR ''/'' # b) = b"
    by simp
  then show ?thesis
    by (simp only: d basename_def append_assoc append_Cons append_Nil r n)
qed

lemma splitext_plain:
  assumes "CHR ''/'' \<notin> set name" and "CHR ''.'' \<notin> set name"
  shows "splitext name = (name, [])"
  using assms by (simp add: splitext_def rfind_absent)

lemma splitext_ext:
  assumes "CHR ''/'' \<notin> set name" and "CHR ''/'' \<notin> set x" and "CHR ''.'' \<notin> set x"
    and "list_ex (\<lambda>c. c \<noteq> CHR ''.'') name"
  shows "splitext (name @ CHR ''.'' # x) = (name, CHR ''.'' # x)"
proof -
  have sep: "rfind (name @ CHR ''.'' # x) (CHR ''/'') = - 1"
    using assms(1,2) by (simp add: rfind_absent)
  have dot: "rfind (name @ CHR ''.'' # x) (CHR ''.'') = int (length name)"
    using assms(3) by (rule rfind_last)
  from assms(4) obtain k where k: "k < length name" "name ! k \<noteq> CHR ''.''"
    by (auto simp: list_ex_iff in_set_conv_nth)
  then have "(name @ CHR ''.'' # x) ! k \<noteq> CHR ''.''"
    by (simp add: nth_append)
  with k(1) have "list_ex (\<lambda>k. (name @ CHR ''.'' # x) ! k \<noteq> CHR ''.'') [0 ..< length name]"
    unfolding list_ex_iff by (intro bexI [of _ k]) simp_all
  then show ?thesis
    by (simp add: splitext_def sep dot)
qed

lemma rom_name:
  assumes "rom_path dir name ext"
  shows "fst (splitext (basename (dir @ name @ ext))) = name"
proof (cases "ext = []")
  case True
  with assms have "basename (dir @ name @ ext) = name" and "CHR ''.'' \<notin> set name"
    and "CHR ''/'' \<notin> set name"
    by (simp_all add: rom_path_def basename_path)
  then show ?thesis
    by (simp add: splitext_plain)
next
  case False
  then obtain x where x: "ext = CHR ''.'' # x"
    using assms by (cases ext) (auto simp: rom_path_def)
  with assms have p: "CHR ''/'' \<notin> set name" "CHR ''/'' \<notin> set x" "CHR ''.'' \<notin> set x"
    "list_ex (\<lambda>c. c \<noteq> CHR ''.'') name" "dir = [] \<or> last dir = CHR ''/''"
    by (simp_all add: rom_path_def)
  have "basename (dir @ name @ ext) = name @ CHR ''.'' # x"
    using p x by (simp add: basename_path)
  then show ?thesis
    using p by (simp add: splitext_ext)
qed

lemma get_rom_key_path:
  assumes "map_of kvs ''rom'' = Some (JStr (dir @ name @ ext))" and "rom_path dir name ext"
  shows "get_rom_key env (JObj kvs) = Inr name"
proof -
  have "dir @ name @ ext \<noteq> []"
    using assms(2) by (simp add: rom_path_def)
  then have "py_or (JStr (dir @ name @ ext)) y = JStr (dir @ name @ ext)" for y
    by (simp add: py_or_def)
  then show ?thesis
    using assms(1) rom_name [OF assms(2)] \<open>dir @ name @ ext \<noteq> []\<close>
    by (simp add: get_rom_key_def py_get_def dict_get_def Let_def)
qed

text \<open>
  C6. Take a \<^verbatim>\<open>game-start\<close> event whose \<^verbatim>\<open>rom\<close> is a path with directory part
  \<open>dir\<close>, file name \<open>rk\<close> and extension \<open>ext\<close>, and a configuration in which the
  event's system has a \<^verbatim>\<open>rom_overrides\<close> entry for \<open>rk\<close> with a \<^verbatim>\<open>start_layout\<close>
  that converts, and an accent that resolves without raising. Then the handler returns,
  having written exactly one byte string, the frame of that layout, and the idle generator
  is \<^verbatim>\<open>idle_menu\<close> made with the system's accent, whose colour
  (\<open>idle_menu_base\<close>, line 197) is the accent when the system declares one and the
  default menu colour when it declares none.
\<close>

theorem game_start_override:
  assumes "event_name (JObj kvs) = Inr ''game-start''"
    and "get_system_key env (JObj kvs) = Inr sk"
    and "map_of kvs ''rom'' = Some (JStr (dir @ rk @ ext))"
    and "rom_path dir rk ext"
    and "map_of (cfg w) sk = Some (JObj sc)"
    and "map_of sc ''rom_overrides'' = Some (JObj ros)"
    and "map_of ros rk = Some (JObj ro)"
    and "map_of ro ''start_layout'' = Some rl"
    and "cols_from_layout rl = Inr cols"
    and "system_accent (cfg w) sk = Inr accent"
  shows "\<exists>frame w'. handle_event env w (JObj kvs) = Inr w'
           \<and> send_colors (ser w) cols = Inr (ser w @ [frame])
           \<and> w' = w\<lparr>ser := ser w @ [frame], current_idle := Idle_menu accent, last_idle := 0\<rparr>
           \<and> idle_menu_base (cfg w') accent
               = (case accent of Some c \<Rightarrow> Inr c | None \<Rightarrow> default_menu_color (cfg w))"
proof -
  have key: "get_rom_key env (JObj kvs) = Inr rk"
    using assms(3,4) by (rule get_rom_key_path)
  from game_start_layout_frame [OF assms(1,2) key assms(5-10)] obtain frame where
    f: "send_colors (ser w) cols = Inr (ser w @ [frame])"
    and h: "handle_event env w (JObj kvs) =
      Inr (w\<lparr>ser := ser w @ [frame], current_idle := Idle_menu accent, last_idle := 0\<rparr>)"
    by blast
  have "idle_menu_base
          (cfg (w\<lparr>ser := ser w @ [frame], current_idle := Idle_menu accent, last_idle := 0\<rparr>)) accent
        = (case accent of Some c \<Rightarrow> Inr c | None \<Rightarrow> default_menu_color (cfg w))"
    by (simp add: idle_menu_base_def)
  with f h show ?thesis by blast
qed

text \<open>
  C6 on \<^verbatim>\<open>{"event": "game-start", "system": "snes", "rom": "/roms/snes/Foo.sfx"}\<close>, where
  the ROM key is \<^verbatim>\<open>Foo\<close> and the system has an accent, and on
  \<^verbatim>\<open>{"event": "game-start", "system": "NES", "rom": "Bar.zip"}\<close>, where the system has no
  accent and the idle colour is the default menu colour of the configuration. One frame is
  written each time and no wipe frame.
\<close>

theorem game_start_override_witness:
  "handle_event example_env example_world
     (JObj [(''event'', JStr ''game-start''), (''system'', JStr ''snes''),
            (''rom'', JStr ''/roms/snes/Foo.sfx'')])
     = Inr (example_world
             \<lparr>ser := [HEADER @ [128, 255, 0, 10, 0, 0, 255, 170] @ replicate 20 0],
              current_idle := Idle_menu (Some (1, 0, 0, 170)),
              last_idle := 0\<rparr>)
   \<and> idle_menu_base example_config (Some (1, 0, 0, 170)) = Inr (1, 0, 0, 170)
   \<and> handle_event example_env example_world
       (JObj [(''event'', JStr ''game-start''), (''system'', JStr ''NES''),
              (''rom'', JStr ''Bar.zip'')])
     = Inr (example_world
             \<lparr>ser := [HEADER @ [255, 0, 0, 64] @ replicate 24 0],
              current_idle := Idle_menu None,
              last_idle := 0\<rparr>)
   \<and> idle_menu_base example_config None = Inr (0, 0, 9, 170)"
proof -
  let ?kvs1 = "[(''event'', JStr ''game-start''), (''system'', JStr ''snes''),
                (''rom'', JStr ''/roms/snes/Foo.sfx'')]"
  let ?rl1 = "JList [JStr ''#00FF80:10'', JObj [(''r'', JInt 300), (''br'', JInt 255)]]"
  let ?ro1 = "[(''start_layout'', ?rl1)]"
  let ?ros1 = "[(''Foo'', JObj ?ro1)]"
  let ?sc1 = "[(''start_layout'', JList [JStr ''#010203'']),
               (''accent'', JObj [(''b'', JInt 1), (''br'', JInt 255)]),
               (''rom_overrides'', JObj ?ros1)]"
  let ?cols1 = "[(128, 255, 0, 10), (0, 0, 300, 170), (0, 0, 0, 0), (0, 0, 0, 0), (0, 0, 0, 0),
                 (0, 0, 0, 0), (0, 0, 0, 0)] :: color list"
  let ?frame1 = "HEADER @ [128, 255, 0, 10, 0, 0, 255, 170] @ replicate 20 0"
  let ?kvs2 = "[(''event'', JStr ''game-start''), (''system'', JStr ''NES''),
                (''rom'', JStr ''Bar.zip'')]"
  let ?rl2 = "JList [JStr ''#0000FF'']"
  let ?ro2 = "[(''start_layout'', ?rl2)]"
  let ?ros2 = "[(''Bar'', JObj ?ro2)]"
  let ?sc2 = "[(''rom_overrides'', JObj ?ros2)]"
  let ?cols2 = "[(255, 0, 0, 64), (0, 0, 0, 0), (0, 0, 0, 0), (0, 0, 0, 0), (0, 0, 0, 0),
                 (0, 0, 0, 0), (0, 0, 0, 0)] :: color list"
  let ?frame2 = "HEADER @ [255, 0, 0, 64] @ replicate 24 0"
  have c: "cfg example_world = example_config" and s: "ser example_world = []"
    by (simp_all add: example_world_def)
  have a1: "event_name (JObj ?kvs1) = Inr ''game-start''"
    by code_simp
  have a2: "get_system_key example_env (JObj ?kvs1) = Inr ''snes''"
    by code_simp
  have a3: "map_of ?kvs1 ''rom'' = Some (JStr (''/roms/snes/'' @ ''Foo'' @ ''.sfx''))"
    by simp
  have a4: "rom_path ''/roms/snes/'' ''Foo'' ''.sfx''"
    by (simp add: rom_path_def)
  have a5: "map_of (cfg example_world) ''snes'' = Some (JObj ?sc1)"
    by (simp add: example_world_def example_config_def)
  have a6: "map_of ?sc1 ''rom_overrides'' = Some (JObj ?ros1)"
    and a7: "map_of ?ros1 ''Foo'' = Some (JObj ?ro1)"
    and a8: "map_of ?ro1 ''start_layout'' = Some ?rl1"
    by simp_all
  have a9: "cols_from_layout ?rl1 = Inr ?cols1"
    by code_simp
  have a10: "system_accent (cfg example_world) ''snes'' = Inr (Some (1, 0, 0, 170))"
    by code_simp
  from game_start_override [OF a1 a2 a3 a4 a5 a6 a7 a8 a9 a10] obtain frame1 w1 where
    r1: "handle_event example_env example_world (JObj ?kvs1) = Inr w1"
      "send_colors (ser example_world) ?cols1 = Inr (ser example_world @ [frame1])"
      "w1 = example_world\<lparr>ser := ser example_world @ [frame1],
              current_idle := Idle_menu (Some (1, 0, 0, 170)), last_idle := 0\<rparr>"
      "idle_menu_base (cfg w1) (Some (1, 0, 0, 170))
         = (case Some (1, 0, 0, 170) of Some c \<Rightarrow> Inr c
            | None \<Rightarrow> default_menu_color (cfg example_world))"
    by blast
  have "send_colors (ser example_world) ?cols1 = Inr [?frame1]"
    by code_simp
  with r1(2) have f1: "frame1 = ?frame1"
    by (simp add: s)
  have b1: "event_name (JObj ?kvs2) = Inr ''game-start''"
    by code_simp
  have b2: "get_system_key example_env (JObj ?kvs2) = Inr ''nes''"
    by code_simp
  have b3: "map_of ?kvs2 ''rom'' = Some (JStr ([] @ ''Bar'' @ ''.zip''))"
    by simp
  have b4: "rom_path [] ''Bar'' ''.zip''"
    by (simp add: rom_path_def)
  have b5: "map_of (cfg example_world) ''nes'' = Some (JObj ?sc2)"
    by (simp add: example_world_def example_config_def)
  have b6: "map_of ?sc2 ''rom_overrides'' = Some (JObj ?ros2)"
    and b7: "map_of ?ros2 ''Bar'' = Some (JObj ?ro2)"
    and b8: "map_of ?ro2 ''start_layout'' = Some ?rl2"
    by simp_all
  have b9: "cols_from_layout ?rl2 = Inr ?cols2"
    by code_simp
  have b10: "system_accent (cfg example_world) ''nes'' = Inr None"
    by code_simp
  from game_start_override [OF b1 b2 b3 b4 b5 b6 b7 b8 b9 b10] obtain frame2 w2 where
    r2: "handle_event example_env example_world (JObj ?kvs2) = Inr w2"
      "send_colors (ser example_world) ?cols2 = Inr (ser example_world @ [frame2])"
      "w2 = example_world\<lparr>ser := ser example_world @ [frame2],
              current_idle := Idle_menu None, last_idle := 0\<rparr>"
      "idle_menu_base (cfg w2) None
         = (case None of Some c \<Rightarrow> Inr c | None \<Rightarrow> default_menu_color (cfg example_world))"
    by blast
  have "send_colors (ser example_world) ?cols2 = Inr [?frame2]"
    by code_simp
  with r2(2) have f2: "frame2 = ?frame2"
    by (simp add: s)
  have d: "default_menu_color example_config = Inr (0, 0, 9, 170)"
    by code_simp
  have c1: "cfg w1 = example_config" and c2: "cfg w2 = example_config"
    using r1(3) r2(3) by (simp_all add: c)
  from r1(1,3,4) r2(1,3,4) show ?thesis
    unfolding f1 f2 c1 c2 by (simp add: s c d)
qed

lemma slot_solid: "src \<in> set ORDER \<Longrightarrow> slot (solid b g r br) src = (b, g, r, clamp (min br BRIGHT_LIMIT) 0 255)"
  by (simp add: slot_def solid_def ORDER_def)

text \<open>
  C9. A \<^verbatim>\<open>solid\<close> event whose \<^verbatim>\<open>b\<close>, \<^verbatim>\<open>g\<close>, \<^verbatim>\<open>r\<close> and \<^verbatim>\<open>br\<close> are integers (or
  absent: 0, 0, 0 and 24) writes one frame of \<open>NUM_LEDS\<close> equal tuples: blue, green and red
  clamped to 0..255 and nothing else, brightness \<open>min br BRIGHT_LIMIT\<close> clamped to 0..255,
  which is at most \<open>BRIGHT_LIMIT\<close>.
\<close>

theorem solid_event_frame:
  assumes "event_name evt = Inr ''solid''"
    and "typed_keys evt"
    and "evt = JObj kvs"
    and "dict_get kvs ''b'' (JInt 0) = JInt b"
    and "dict_get kvs ''g'' (JInt 0) = JInt g"
    and "dict_get kvs ''r'' (JInt 0) = JInt r"
    and "dict_get kvs ''br'' (JInt 24) = JInt br"
  shows "\<exists>frame. handle_event env w evt = Inr (w\<lparr>ser := ser w @ [frame], last_idle := 0\<rparr>)
           \<and> take (length HEADER) frame = HEADER
           \<and> map uint (drop (length HEADER) frame) =
               concat (replicate NUM_LEDS
                 [clamp b 0 255, clamp g 0 255, clamp r 0 255, clamp (min br BRIGHT_LIMIT) 0 255])
           \<and> clamp (min br BRIGHT_LIMIT) 0 255 \<le> BRIGHT_LIMIT"
proof -
  let ?col = "(b, g, r, clamp (min br BRIGHT_LIMIT) 0 255)"
  let ?p = "concat (map (\<lambda>src. map word_of_int (clamped (slot (solid b g r br) src))) ORDER) :: byte list"
  obtain sk rk where keys: "get_system_key env evt = Inr sk" "get_rom_key env evt = Inr rk"
    using get_system_key_typed [OF assms(2), of env] get_rom_key_typed [OF assms(2), of env] by blast
  have ints: "event_int evt ''b'' 0 = Inr b" "event_int evt ''g'' 0 = Inr g"
    "event_int evt ''r'' 0 = Inr r" "event_int evt ''br'' 24 = Inr br"
    using assms(3-7) by (simp_all add: event_int_def py_get_def)
  have act: "event_action env w evt ''solid'' sk rk = Inr (w\<lparr>ser := ser w @ [HEADER @ ?p]\<rparr>)"
    by (simp add: event_action_def ints send_colors_eq)
  have h: "handle_event env w evt = Inr (w\<lparr>ser := ser w @ [HEADER @ ?p], last_idle := 0\<rparr>)"
    by (simp add: handle_event_def assms(1) keys act)
  have "map (\<lambda>src. clamped (slot (solid b g r br) src)) ORDER = map (\<lambda>src. clamped ?col) ORDER"
    by (rule map_cong) (simp_all add: slot_solid)
  then have vals: "map uint ?p = concat (replicate NUM_LEDS (clamped ?col))"
    by (simp add: map_concat comp_def map_uint_clamped map_replicate_const ORDER_def)
  have cl: "clamped ?col = [clamp b 0 255, clamp g 0 255, clamp r 0 255, clamp (min br BRIGHT_LIMIT) 0 255]"
    by (simp add: clamped_clamp clamp_idem)
  have "take (length HEADER) (HEADER @ ?p) = HEADER" and "drop (length HEADER) (HEADER @ ?p) = ?p"
    by simp_all
  with h vals cl capped [of br] show ?thesis
    by metis
qed

text \<open>
  C9 on \<^verbatim>\<open>{"event": "solid", "b": 300, "g": -5, "br": 255}\<close>: blue is 255, brightness 170.
\<close>

theorem solid_event_frame_witness:
  "\<exists>frame.
     handle_event example_env example_world
       (JObj [(''event'', JStr ''solid''), (''b'', JInt 300), (''g'', JInt (- 5)),
              (''br'', JInt 255)])
     = Inr (example_world\<lparr>ser := ser example_world @ [frame], last_idle := 0\<rparr>)
     \<and> take (length HEADER) frame = HEADER
     \<and> map uint (drop (length HEADER) frame) = concat (replicate NUM_LEDS [255, 0, 0, 170])"
proof -
  let ?kvs = "[(''event'', JStr ''solid''), (''b'', JInt 300), (''g'', JInt (- 5)),
               (''br'', JInt 255)]"
  have h1: "event_name (JObj ?kvs) = Inr ''solid''"
    by code_simp
  have h2: "typed_keys (JObj ?kvs)"
    by code_simp
  have h4: "dict_get ?kvs ''b'' (JInt 0) = JInt 300"
    and h5: "dict_get ?kvs ''g'' (JInt 0) = JInt (- 5)"
    and h6: "dict_get ?kvs ''r'' (JInt 0) = JInt 0"
    and h7: "dict_get ?kvs ''br'' (JInt 24) = JInt 255"
    by (simp_all add: dict_get_def)
  have v: "[clamp 300 0 255, clamp (- 5) 0 255, clamp 0 0 255, clamp (min 255 BRIGHT_LIMIT) 0 255]
             = [255, 0, 0, 170]"
    by (simp add: clamp_def BRIGHT_LIMIT_def)
  from solid_event_frame [OF h1 h2 refl h4 h5 h6 h7, of example_env example_world]
  show ?thesis
    unfolding v by blast
qed

section \<open>Resolution leaves the configuration alone\<close>

lemma keeps_cfg_Inr: "cfg w' = cfg w \<Longrightarrow> keeps_cfg w (Inr w')"
  by (simp add: keeps_cfg_def)

lemma keeps_cfg_Inl: "cfg w' = cfg w \<Longrightarrow> keeps_cfg w (Inl (e, w'))"
  by (simp add: keeps_cfg_def)

lemma keeps_cfg_raise_in:
  assumes "\<And>x. keeps_cfg w (f x)"
  shows "keeps_cfg w (raise_in w m f)"
proof (cases m)
  case (Inl e)
  then show ?thesis by (simp add: raise_in_def keeps_cfg_def)
next
  case (Inr x)
  then show ?thesis using assms [of x] by (simp add: raise_in_def)
qed

lemma keeps_cfg_wrote:
  assumes "\<And>s. keeps_cfg w (f (w\<lparr>ser := s\<rparr>))"
  shows "keeps_cfg w (wrote w m f)"
proof (cases m)
  case (Inl x)
  then show ?thesis by (cases x) (simp add: wrote_def keeps_cfg_def)
next
  case (Inr s)
  then show ?thesis using assms [of s] by (simp add: wrote_def)
qed

lemma keeps_cfg_set_idle_menu: "cfg w1 = cfg w \<Longrightarrow> keeps_cfg w (set_idle_menu sk w1)"
  by (cases "system_accent (cfg w1) sk") (simp_all add: set_idle_menu_def raise_in_def keeps_cfg_def)

lemma keeps_cfg_event_action: "keeps_cfg w (event_action env w evt name sk rk)"
  unfolding event_action_def
  by (intro keeps_cfg_raise_in keeps_cfg_wrote keeps_cfg_set_idle_menu keeps_cfg_Inr
        if_split [where P = "keeps_cfg w", THEN iffD2] conjI impI)
     simp_all

lemma keeps_cfg_handle_event:
  assumes "event_name evt = Inr name" and "name \<noteq> ''reload-config''"
  shows "keeps_cfg w (handle_event env w evt)"
proof -
  have k: "keeps_cfg w (case event_action env w evt name sk rk of
             Inl x \<Rightarrow> Inl x | Inr w' \<Rightarrow> Inr (w'\<lparr>last_idle := 0\<rparr>))" for sk rk
    using keeps_cfg_event_action [of w env evt name sk rk]
    by (auto simp: keeps_cfg_def split: sum.splits)
  have "handle_event env w evt =
      raise_in w (get_system_key env evt) (\<lambda>syskey.
      raise_in w (get_rom_key env evt) (\<lambda>romkey.
        case event_action env w evt name syskey romkey of
          Inl x \<Rightarrow> Inl x
        | Inr w' \<Rightarrow> Inr (w'\<lparr>last_idle := 0\<rparr>)))"
    using assms by (simp add: handle_event_def)
  then show ?thesis
    by (simp only:) (intro keeps_cfg_raise_in k)
qed

text \<open>
  C8. \<^verbatim>\<open>lookup_start_layout\<close> depends on the configuration and its two keys only and
  changes nothing: two calls in a row return the same result and leave the state as it
  was, and so do two calls with an event other than \<^verbatim>\<open>reload-config\<close> handled between
  them, since no other handler assigns the configuration.
\<close>

theorem lookup_start_layout_repeatable:
  "(let (r1, w1) = call_lookup_start_layout w sk rk;
        (r2, w2) = call_lookup_start_layout w1 sk rk
    in r1 = r2 \<and> w2 = w)
   \<and> (event_name evt = Inr name \<and> name \<noteq> ''reload-config'' \<and> handle_event env w evt = Inr w'
        \<longrightarrow> fst (call_lookup_start_layout w' sk rk) = fst (call_lookup_start_layout w sk rk))"
proof (intro conjI impI)
  show "let (r1, w1) = call_lookup_start_layout w sk rk;
            (r2, w2) = call_lookup_start_layout w1 sk rk
        in r1 = r2 \<and> w2 = w"
    by (simp add: call_lookup_start_layout_def)
next
  assume a: "event_name evt = Inr name \<and> name \<noteq> ''reload-config'' \<and> handle_event env w evt = Inr w'"
  then have "keeps_cfg w (handle_event env w evt)"
    by (intro keeps_cfg_handle_event [of evt name]) simp_all
  with a have "cfg w' = cfg w"
    by (simp add: keeps_cfg_def)
  then show "fst (call_lookup_start_layout w' sk rk) = fst (call_lookup_start_layout w sk rk)"
    by (simp add: call_lookup_start_layout_def)
qed

text \<open>
  C8 with an \<^verbatim>\<open>off\<close> event handled between the two calls.
\<close>

theorem lookup_start_layout_repeatable_witness:
  "handle_event example_env example_world (JObj [(''event'', JStr ''off'')])
     = Inr (example_world\<lparr>ser := [HEADER @ replicate 28 0], last_idle := 0\<rparr>)
   \<and> fst (call_lookup_start_layout
            (example_world\<lparr>ser := [HEADER @ replicate 28 0], last_idle := 0\<rparr>) ''snes'' ''Foo'')
     = fst (call_lookup_start_layout example_world ''snes'' ''Foo'')
   \<and> fst (call_lookup_start_layout example_world ''snes'' ''Foo'')
     = Inr (Some [(128, 255, 0, 10), (0, 0, 300, 170), (0, 0, 0, 0), (0, 0, 0, 0), (0, 0, 0, 0),
                  (0, 0, 0, 0), (0, 0, 0, 0)])"
proof -
  let ?evt = "JObj [(''event'', JStr ''off'')]"
  let ?w' = "example_world\<lparr>ser := [HEADER @ replicate 28 0], last_idle := 0\<rparr>"
  have h1: "event_name ?evt = Inr ''off''"
    by code_simp
  have h2: "''off'' \<noteq> ''reload-config''"
    by simp
  have h3: "handle_event example_env example_world ?evt = Inr ?w'"
    by code_simp
  have e: "fst (call_lookup_start_layout example_world ''snes'' ''Foo'')
     = Inr (Some [(128, 255, 0, 10), (0, 0, 300, 170), (0, 0, 0, 0), (0, 0, 0, 0), (0, 0, 0, 0),
                  (0, 0, 0, 0), (0, 0, 0, 0)])"
    by code_simp
  from lookup_start_layout_repeatable
         [of example_world "''snes''" "''Foo''" ?evt "''off''" example_env ?w']
    h1 h2 h3 e
  show ?thesis by blast
qed

section \<open>Configurations the resolvers raise on\<close>

text \<open>
  C2 does not hold of the code. The resolvers raise on: a text that is no number in a
  field of the accent (\<^verbatim>\<open>int("high")\<close>), a \<^verbatim>\<open>defaults\<close> that is a list (it has no
  \<^verbatim>\<open>get\<close>), a \<^verbatim>\<open>null\<close> field of a layout entry (\<^verbatim>\<open>int(None)\<close>), and a system entry
  that is a number (\<^verbatim>\<open>"rom_overrides" in 1\<close>).
\<close>

theorem resolvers_raise_on_malformed_config:
  "system_accent [(''snes'', JObj [(''accent'', JObj [(''br'', JStr ''high'')])])] ''snes''
     = Inl ValueError
   \<and> default_menu_color [(''defaults'', JList [])] = Inl AttributeError
   \<and> cols_from_layout (JList [JObj [(''r'', JNull)]]) = Inl TypeError
   \<and> lookup_start_layout [(''snes'', JInt 1)] ''snes'' ''Foo'' = Inl TypeError"
  by code_simp

text \<open>
  C5 does not hold of the code for a text of the right shape whose digits are not
  hexadecimal: \<^verbatim>\<open>int("GG", 16)\<close> raises, and \<^verbatim>\<open>int("-1", 16)\<close> is -1, so neither
  text gives the all-zero tuple.
\<close>

theorem malformed_hex_raises:
  "cols_from_layout (JList [JStr ''#GGGGGG'']) = Inl ValueError
   \<and> cols_from_layout (JList [JStr ''#-1-1-1''])
     = Inr [(- 1, - 1, - 1, 64), (0, 0, 0, 0), (0, 0, 0, 0), (0, 0, 0, 0), (0, 0, 0, 0),
            (0, 0, 0, 0), (0, 0, 0, 0)]"
  by code_simp

section \<open>Colour specifications the resolvers accept\<close>

lemma hex_digits_scan:
  "list_all (\<lambda>c. \<not> int_space c \<and> c \<noteq> CHR ''+'' \<and> c \<noteq> CHR ''-'' \<and> c \<noteq> CHR ''_''
       \<and> c \<noteq> CHR ''x'' \<and> c \<noteq> CHR ''X''
       \<and> (case digit_val c of Some x \<Rightarrow> x < 16 | None \<Rightarrow> False))
     ''0123456789abcdefABCDEF''"
  by code_simp

lemma hex_digit_scan:
  assumes "hex_digit c"
  shows "\<not> int_space c" and "c \<noteq> CHR ''+''" and "c \<noteq> CHR ''-''" and "c \<noteq> CHR ''_''"
    and "c \<noteq> CHR ''x''" and "c \<noteq> CHR ''X''" and "\<exists>x. digit_val c = Some x \<and> x < 16"
  using hex_digits_scan assms unfolding hex_digit_def list_all_iff
  by (auto split: option.splits)

lemma int16_pair:
  assumes "hex_digit c" and "hex_digit d"
  shows "int_of_str 16 [c, d] = Inr (hex_pair c d)"
proof -
  from hex_digit_scan(7) [OF assms(1)] obtain x where x: "digit_val c = Some x" "x < 16"
    by blast
  from hex_digit_scan(7) [OF assms(2)] obtain y where y: "digit_val d = Some y" "y < 16"
    by blast
  have scan: "scan_digits 16 (CHR 0x00) 0 [c, d] = Some (int (16 * x + y), d, [])"
    using hex_digit_scan(4) [OF assms(1)] hex_digit_scan(4) [OF assms(2)] x y by simp
  show ?thesis
    using hex_digit_scan(1-6) [OF assms(1)] hex_digit_scan(4-6) [OF assms(2)]
    by (simp add: int_of_str_def scan hex_pair_def x y)
qed

lemma hex_digits_plain:
  "list_all (\<lambda>c. \<not> uni_space c \<and> c \<noteq> CHR '':'') ''0123456789abcdefABCDEF''"
  by code_simp

lemma hex_digit_plain: "hex_digit c \<Longrightarrow> \<not> uni_space c \<and> c \<noteq> CHR '':''"
  using hex_digits_plain unfolding hex_digit_def list_all_iff by blast

lemma hash_plain: "\<not> uni_space (CHR ''#'')"
  by code_simp

text \<open>
  The part of C5 that holds of the code, for every text: \<^verbatim>\<open>#\<close> and six hexadecimal
  digits, with no brightness suffix, give the tuple (blue, green, red, 64).
\<close>

theorem hex_text_default_brightness:
  assumes "list_all hex_digit [r1, r2, g1, g2, b1, b2]"
  shows "layout_item (JStr (CHR ''#'' # [r1, r2, g1, g2, b1, b2]))
           = Inr (hex_pair b1 b2, hex_pair g1 g2, hex_pair r1 r2, 64)"
proof -
  let ?s = "CHR ''#'' # [r1, r2, g1, g2, b1, b2]"
  have d: "hex_digit r1" "hex_digit r2" "hex_digit g1" "hex_digit g2" "hex_digit b1" "hex_digit b2"
    using assms by simp_all
  have strip: "py_strip ?s = ?s"
    using hex_digit_plain [OF d(6)] hash_plain by (simp add: py_strip_def)
  have nocolon: "CHR '':'' \<notin> set ?s"
    using d [THEN hex_digit_plain] by auto
  have br: "clamp (min 64 BRIGHT_LIMIT) 0 255 = 64"
    by (simp add: clamp_def BRIGHT_LIMIT_def)
  show ?thesis
    using nocolon
    by (simp add: layout_item_def strip int16_pair d br del: set_simps)
qed

text \<open>
  On \<^verbatim>\<open>"#00FF80"\<close> the tuple is (0x80, 0xFF, 0x00, 64), and on \<^verbatim>\<open>"#00FF80:10"\<close> it is
  (0x80, 0xFF, 0x00, 10).
\<close>

theorem hex_text_default_brightness_witness:
  "layout_item (JStr ''#00FF80'') = Inr (128, 255, 0, 64)
   \<and> layout_item (JStr ''#00FF80:10'') = Inr (128, 255, 0, 10)"
proof -
  have h: "list_all hex_digit ''00FF80''"
    by code_simp
  have v: "hex_pair (CHR ''8'') (CHR ''0'') = 128" "hex_pair (CHR ''F'') (CHR ''F'') = 255"
    "hex_pair (CHR ''0'') (CHR ''0'') = 0"
    by code_simp+
  have "layout_item (JStr ''#00FF80:10'') = Inr (128, 255, 0, 10)"
    by code_simp
  with hex_text_default_brightness [OF h] v show ?thesis
    by simp
qed

text \<open>
  A layout entry gives the all-zero tuple when it is a text whose part before the
  brightness suffix is not \<^verbatim>\<open>#\<close> and six more characters, and when it is neither a dict
  nor a text.
\<close>

theorem misshapen_entry_is_zero:
  "(\<not> (take 1 (if CHR '':'' \<in> set (py_strip t) then fst (split1 (CHR '':'') (py_strip t))
                 else py_strip t) = ''#''
        \<and> length (if CHR '':'' \<in> set (py_strip t) then fst (split1 (CHR '':'') (py_strip t))
                   else py_strip t) = 7)
      \<longrightarrow> layout_item (JStr t) = Inr (0, 0, 0, 0))
   \<and> layout_item JNull = Inr (0, 0, 0, 0)
   \<and> layout_item (JBool b) = Inr (0, 0, 0, 0)
   \<and> layout_item (JInt i) = Inr (0, 0, 0, 0)
   \<and> layout_item (JFloat f) = Inr (0, 0, 0, 0)
   \<and> layout_item (JList xs) = Inr (0, 0, 0, 0)"
  by (auto simp: layout_item_def Let_def split: prod.splits)

text \<open>
  Texts with no \<^verbatim>\<open>#\<close>, with three digits, and with a blank before the suffix.
\<close>

theorem misshapen_entry_is_zero_witness:
  "layout_item (JStr ''00FF80'') = Inr (0, 0, 0, 0)
   \<and> layout_item (JStr ''#FFF:30'') = Inr (0, 0, 0, 0)
   \<and> layout_item (JStr ''#00FF80 :30'') = Inr (0, 0, 0, 0)"
proof -
  have a: "\<not> (take 1 (if CHR '':'' \<in> set (py_strip t) then fst (split1 (CHR '':'') (py_strip t))
                 else py_strip t) = ''#''
        \<and> length (if CHR '':'' \<in> set (py_strip t) then fst (split1 (CHR '':'') (py_strip t))
                   else py_strip t) = 7)"
    if "t \<in> {''00FF80'', ''#FFF:30'', ''#00FF80 :30''}" for t
    using that by (elim insertE emptyE; hypsubst) code_simp+
  show ?thesis
    using misshapen_entry_is_zero [of "''00FF80''"] misshapen_entry_is_zero [of "''#FFF:30''"]
      misshapen_entry_is_zero [of "''#00FF80 :30''"] a
    by blast
qed

text \<open>
  The part of C2 that holds of the code: \<^verbatim>\<open>system_accent\<close> is \<open>None\<close> when the
  system is unknown or its entry is a dict whose \<^verbatim>\<open>accent\<close> is not a dict, and
  \<^verbatim>\<open>default_menu_color\<close> is (0, 32, 64, 28) when \<^verbatim>\<open>defaults\<close> is absent or is a dict
  whose \<^verbatim>\<open>menu_color\<close> is not a dict.
\<close>

theorem colour_not_a_dict:
  "(map_of config k = None \<longrightarrow> system_accent config k = Inr None)
   \<and> (map_of config k = Some (JObj sc) \<and> (\<forall>kvs. dict_get sc ''accent'' JNull \<noteq> JObj kvs)
        \<longrightarrow> system_accent config k = Inr None)
   \<and> (map_of config ''defaults'' = None \<longrightarrow> default_menu_color config = Inr (0, 32, 64, 28))
   \<and> (map_of config ''defaults'' = Some (JObj d)
        \<and> (\<forall>kvs. dict_get d ''menu_color'' JNull \<noteq> JObj kvs)
        \<longrightarrow> default_menu_color config = Inr (0, 32, 64, 28))"
proof (intro conjI impI)
  assume "map_of config k = None"
  then show "system_accent config k = Inr None"
    by (simp add: system_accent_def dict_get_def py_get_def)
next
  assume a: "map_of config k = Some (JObj sc) \<and> (\<forall>kvs. dict_get sc ''accent'' JNull \<noteq> JObj kvs)"
  then have "dict_get config k (JObj []) = JObj sc"
    by (simp add: dict_get_def)
  with a show "system_accent config k = Inr None"
    by (cases "dict_get sc ''accent'' JNull") (simp_all add: system_accent_def py_get_def)
next
  assume "map_of config ''defaults'' = None"
  then show "default_menu_color config = Inr (0, 32, 64, 28)"
    by (simp add: default_menu_color_def dict_get_def py_get_def)
next
  assume a: "map_of config ''defaults'' = Some (JObj d)
    \<and> (\<forall>kvs. dict_get d ''menu_color'' JNull \<noteq> JObj kvs)"
  then have "dict_get config ''defaults'' (JObj []) = JObj d"
    by (simp add: dict_get_def)
  with a show "default_menu_color config = Inr (0, 32, 64, 28)"
    by (cases "dict_get d ''menu_color'' JNull") (simp_all add: default_menu_color_def py_get_def)
qed

text \<open>
  An accent and a menu colour that are a text and a list.
\<close>

theorem colour_not_a_dict_witness:
  "system_accent [(''snes'', JObj [(''accent'', JStr ''#00FF80'')])] ''nes'' = Inr None
   \<and> system_accent [(''snes'', JObj [(''accent'', JStr ''#00FF80'')])] ''snes'' = Inr None
   \<and> default_menu_color [(''snes'', JObj [(''accent'', JStr ''#00FF80'')])] = Inr (0, 32, 64, 28)
   \<and> default_menu_color [(''defaults'', JObj [(''menu_color'', JList [JInt 1, JInt 2])])]
     = Inr (0, 32, 64, 28)"
proof -
  let ?c1 = "[(''snes'', JObj [(''accent'', JStr ''#00FF80'')])]"
  let ?c2 = "[(''defaults'', JObj [(''menu_color'', JList [JInt 1, JInt 2])])]"
  have "system_accent ?c1 ''nes'' = Inr None"
    using colour_not_a_dict [of ?c1 "''nes''"] by simp
  moreover have "system_accent ?c1 ''snes'' = Inr None"
    using colour_not_a_dict [of ?c1 "''snes''" "[(''accent'', JStr ''#00FF80'')]"]
    by (simp add: dict_get_def)
  moreover have "default_menu_color ?c1 = Inr (0, 32, 64, 28)"
    using colour_not_a_dict [of ?c1] by simp
  moreover have "default_menu_color ?c2 = Inr (0, 32, 64, 28)"
    using colour_not_a_dict [of ?c2 _ _ "[(''menu_color'', JList [JInt 1, JInt 2])]"]
    by (simp add: dict_get_def)
  ultimately show ?thesis by simp
qed

section \<open>Numbers too long to read\<close>

lemma dec_digits_scan:
  "list_all (\<lambda>c. \<not> int_space c \<and> c \<noteq> CHR ''+'' \<and> c \<noteq> CHR ''-'' \<and> c \<noteq> CHR ''_''
       \<and> (case digit_val c of Some x \<Rightarrow> x < 10 | None \<Rightarrow> False))
     ''0123456789''"
  by code_simp

lemma dec_digit_scan:
  assumes "dec_digit c"
  shows "\<not> int_space c" and "c \<noteq> CHR ''+''" and "c \<noteq> CHR ''-''" and "c \<noteq> CHR ''_''"
    and "\<exists>x. digit_val c = Some x \<and> x < 10"
  using dec_digits_scan assms unfolding dec_digit_def list_all_iff
  by (auto split: option.splits)

lemma scan_digits_decimal:
  "list_all dec_digit ds \<Longrightarrow> ds \<noteq> [] \<Longrightarrow> \<exists>v. scan_digits 10 prev acc ds = Some (v, last ds, [])"
proof (induction ds arbitrary: prev acc)
  case Nil
  then show ?case by simp
next
  case (Cons c ds)
  then have c: "dec_digit c" and ds: "list_all dec_digit ds"
    by simp_all
  from dec_digit_scan(5) [OF c] obtain x where x: "digit_val c = Some x" "x < 10"
    by blast
  have step: "scan_digits 10 prev acc (c # ds) = scan_digits 10 c (acc * 10 + int x) ds"
    using dec_digit_scan(4) [OF c] x by simp
  show ?case
  proof (cases "ds = []")
    case True
    show ?thesis
      unfolding step using True by simp
  next
    case False
    from Cons.IH [OF ds False, of c "acc * 10 + int x"] False show ?thesis
      unfolding step by simp
  qed
qed

text \<open>
  \<^verbatim>\<open>int\<close> raises on a text of more than \<open>max_str_digits\<close> decimal digits, so a
  configuration field holding one makes the resolver raise, and a brightness suffix
  holding one gives the default 64.
\<close>

theorem long_decimal_text_refused:
  assumes "list_all dec_digit ds" and "int (length ds) > max_str_digits"
  shows "py_int (JStr ds) = Inl ValueError"
proof -
  from assms(2) have ne: "ds \<noteq> []"
    by (auto simp: max_str_digits_def)
  then obtain c cs where d: "ds = c # cs"
    by (cases ds) auto
  with assms(1) have c: "dec_digit c"
    by simp
  from scan_digits_decimal [OF assms(1) ne, of "CHR 0x00" 0] obtain v where
    v: "scan_digits 10 (CHR 0x00) 0 ds = Some (v, last ds, [])"
    by blast
  have "dec_digit (last ds)"
    using assms(1) ne by (metis last_in_set list_all_iff)
  then have l: "last ds \<noteq> CHR ''_''"
    by (rule dec_digit_scan(4))
  have u: "filter (\<lambda>c. c \<noteq> CHR ''_'') ds = ds"
    using assms(1) by (auto simp: list_all_iff filter_id_conv dest: dec_digit_scan(4))
  have pre: "skip_prefix 10 ds = ds"
  proof (cases ds)
    case Nil
    then show ?thesis by simp
  next
    case (Cons a as)
    then show ?thesis by (cases as) simp_all
  qed
  have sgn: "skip_sign (dropWhile int_space ds) = (False, ds)"
    using dec_digit_scan(1-3) [OF c] by (simp add: d)
  have t: "take 1 ds \<noteq> ''_''"
    using dec_digit_scan(4) [OF c] by (simp add: d)
  show ?thesis
    using assms(2) ne l t
    by (simp add: int_of_str_def sgn pre v u)
qed

text \<open>
  A text of 4301 digits.
\<close>

theorem long_decimal_text_refused_witness:
  "py_int (JStr (replicate 4301 (CHR ''1''))) = Inl ValueError"
proof -
  have "dec_digit (CHR ''1'')"
    by code_simp
  then have h1: "list_all dec_digit (replicate 4301 (CHR ''1''))"
    by (simp add: list_all_iff)
  have h2: "int (length (replicate 4301 (CHR ''1''))) > max_str_digits"
    by (simp add: max_str_digits_def)
  from long_decimal_text_refused [OF h1 h2] show ?thesis .
qed

end
